theory Spec2Isabelle
  imports Main "HOL-Library.Monad_Syntax" "HOL-Library.Sublist"
begin

section \<open>Strings and paths\<close>

text \<open>
  JavaScript strings are modelled as \<^typ>\<open>string\<close>, one \<^typ>\<open>char\<close> per code unit below 256.
  \<open>toLowerCase\<close> moves the ASCII capitals and the Latin-1 capitals (all of 192 to 222 but the
  multiplication sign 215) 32 places up and leaves every other such code unit alone.
\<close>

definition lower_char :: "char \<Rightarrow> char" where
  "lower_char c =
     (let n = (of_char c :: nat)
      in if (65 \<le> n \<and> n \<le> 90) \<or> (192 \<le> n \<and> n \<le> 222 \<and> n \<noteq> 215)
         then char_of (n + 32) else c)"

definition toLowerCase :: "string \<Rightarrow> string" where
  "toLowerCase s = map lower_char s"

text \<open>
  \<open>path.extname\<close> of Node (POSIX flavour): trailing separators are skipped, the last segment
  is the base name, and the extension runs from the last dot of the base name to its end. The
  extension is empty when the base name has no dot, when its only dot is its first character,
  and when the base name is \<open>..\<close>.
\<close>

definition basename_part :: "string \<Rightarrow> string" where
  "basename_part p =
     rev (takeWhile (\<lambda>c. c \<noteq> CHR ''/'') (dropWhile (\<lambda>c. c = CHR ''/'') (rev p)))"

definition extname :: "string \<Rightarrow> string" where
  "extname p =
     (let b = basename_part p;
          ext = rev (takeWhile (\<lambda>c. c \<noteq> CHR ''.'') (rev b));
          pre = take (length b - length ext - 1) b
      in if CHR ''.'' \<notin> set b then ''''
         else if pre = [] then ''''
         else if b = ''..'' then ''''
         else CHR ''.'' # ext)"

section \<open>The upload filter (routes.ts)\<close>

definition allowedTypes :: "string list" where
  "allowedTypes = [''.html'', ''.css'', ''.js'', ''.png'', ''.jpg'', ''.jpeg'', ''.gif'', ''.svg'']"

text \<open>The callback of the filter: \<open>cb(null, true)\<close> or \<open>cb(new Error('Invalid file type'))\<close>.\<close>

definition fileFilter :: "string \<Rightarrow> string + bool" where
  "fileFilter originalname =
     (let ext = toLowerCase (extname originalname)
      in if ext \<in> set allowedTypes then Inr True else Inl ''Invalid file type'')"

section \<open>Values of the record store (shared/schema.ts, storage.ts)\<close>

text \<open>
  A property of a JavaScript object is \<open>undefined\<close> (also when the key is missing),
  \<open>null\<close> or a value. \<open>a || b\<close> takes \<open>b\<close> when \<open>a\<close> is falsy: undefined, null, the
  empty string or the number 0.
\<close>

datatype 'a jsval = Undefined | Null | Val 'a

definition or_string :: "string jsval \<Rightarrow> string \<Rightarrow> string" where
  "or_string a b = (case a of Val s \<Rightarrow> (if s = '''' then b else s) | _ \<Rightarrow> b)"

definition or_int :: "int jsval \<Rightarrow> int \<Rightarrow> int" where
  "or_int a b = (case a of Val n \<Rightarrow> (if n = 0 then b else n) | _ \<Rightarrow> b)"

text \<open>\<open>a || null\<close> on a string property.\<close>

definition or_null :: "string jsval \<Rightarrow> string option" where
  "or_null a = (case a of Val s \<Rightarrow> (if s = '''' then None else Some s) | _ \<Rightarrow> None)"

type_synonym time = nat

record project =
  p_id :: int
  p_name :: string
  p_description :: "string option"
  p_inputType :: string
  p_websiteUrl :: "string option"
  p_packageName :: string
  p_appName :: string
  p_version :: string
  p_versionCode :: int
  p_versionName :: "string jsval"
  p_minSdkVersion :: "int jsval"
  p_targetSdkVersion :: "int jsval"
  p_iconPath :: "string option"
  p_logoPath :: "string option"
  p_createdAt :: time
  p_updatedAt :: time

text \<open>
  \<open>InsertProject\<close>, the output of \<open>insertProjectSchema\<close>: the columns of \<open>projects\<close> but
  \<open>id\<close>, \<open>createdAt\<close> and \<open>updatedAt\<close>. A \<open>notNull\<close> column without default is required,
  one with a default is optional, a nullable column is optional and may be null.
\<close>

record insert_project =
  ip_name :: string
  ip_description :: "string jsval"
  ip_inputType :: string
  ip_websiteUrl :: "string jsval"
  ip_packageName :: string
  ip_appName :: string
  ip_version :: "string jsval"
  ip_versionCode :: "int jsval"
  ip_versionName :: "string jsval"
  ip_minSdkVersion :: "int jsval"
  ip_targetSdkVersion :: "int jsval"
  ip_iconPath :: "string jsval"
  ip_logoPath :: "string jsval"

record build =
  b_id :: int
  b_projectId :: "int jsval"
  b_status :: "string jsval"
  b_buildType :: "string jsval"
  b_outputPath :: "string jsval"
  b_aabPath :: "string jsval"
  b_keystorePath :: "string jsval"
  b_errorMessage :: "string jsval"
  b_progress :: "int jsval"
  b_buildStep :: "string jsval"
  b_buildMessage :: "string jsval"
  b_startedAt :: "time jsval"
  b_completedAt :: "time jsval"

text \<open>
  \<open>Partial<InsertBuild>\<close>: every key of \<open>InsertBuild\<close> may be missing (\<open>None\<close>) or present
  with a value, which may itself be undefined or null.
\<close>

record build_updates =
  u_projectId :: "int jsval option"
  u_status :: "string jsval option"
  u_buildType :: "string jsval option"
  u_outputPath :: "string jsval option"
  u_aabPath :: "string jsval option"
  u_keystorePath :: "string jsval option"
  u_errorMessage :: "string jsval option"
  u_progress :: "int jsval option"
  u_buildStep :: "string jsval option"
  u_buildMessage :: "string jsval option"

definition no_updates :: build_updates where
  "no_updates = \<lparr>u_projectId = None, u_status = None, u_buildType = None, u_outputPath = None,
     u_aabPath = None, u_keystorePath = None, u_errorMessage = None, u_progress = None,
     u_buildStep = None, u_buildMessage = None\<rparr>"

record project_file =
  f_id :: int
  f_projectId :: "int option"
  f_fileName :: string
  f_filePath :: string
  f_fileType :: string
  f_fileSize :: nat
  f_uploadedAt :: time

record build_stats =
  totalBuilds :: int
  successfulBuilds :: int
  failedBuilds :: int
  lastBuildAt :: "time option"

section \<open>MemStorage (storage.ts)\<close>

record mem_storage =
  projects :: "int \<rightharpoonup> project"
  builds :: "int \<rightharpoonup> build"
  projectFiles :: "int \<rightharpoonup> project_file"
  buildStats :: build_stats
  projectIdCounter :: int
  buildIdCounter :: int
  fileIdCounter :: int

definition new_storage :: mem_storage where
  "new_storage = \<lparr>projects = Map.empty, builds = Map.empty, projectFiles = Map.empty,
     buildStats = \<lparr>totalBuilds = 0, successfulBuilds = 0, failedBuilds = 0, lastBuildAt = None\<rparr>,
     projectIdCounter = 1, buildIdCounter = 1, fileIdCounter = 1\<rparr>"

definition createProject :: "time \<Rightarrow> insert_project \<Rightarrow> mem_storage \<Rightarrow> project \<times> mem_storage" where
  "createProject now insertProject st =
     (let i = projectIdCounter st;
          project = \<lparr>p_id = i,
            p_name = ip_name insertProject,
            p_description = or_null (ip_description insertProject),
            p_inputType = ip_inputType insertProject,
            p_websiteUrl = or_null (ip_websiteUrl insertProject),
            p_packageName = ip_packageName insertProject,
            p_appName = ip_appName insertProject,
            p_version = or_string (ip_version insertProject) ''1.0.0'',
            p_versionCode = or_int (ip_versionCode insertProject) 1,
            p_versionName = ip_versionName insertProject,
            p_minSdkVersion = ip_minSdkVersion insertProject,
            p_targetSdkVersion = ip_targetSdkVersion insertProject,
            p_iconPath = or_null (ip_iconPath insertProject),
            p_logoPath = or_null (ip_logoPath insertProject),
            p_createdAt = now,
            p_updatedAt = now\<rparr>
      in (project, st\<lparr>projects := (projects st)(i \<mapsto> project), projectIdCounter := i + 1\<rparr>))"

text \<open>The object spread \<open>{ ...build, ...updates }\<close>: a key of \<open>updates\<close> overrides the build's.\<close>

definition spread :: "'a \<Rightarrow> 'a option \<Rightarrow> 'a" where
  "spread old upd = (case upd of None \<Rightarrow> old | Some v \<Rightarrow> v)"

definition spread_build :: "build \<Rightarrow> build_updates \<Rightarrow> build" where
  "spread_build b u =
     b\<lparr>b_projectId := spread (b_projectId b) (u_projectId u),
       b_status := spread (b_status b) (u_status u),
       b_buildType := spread (b_buildType b) (u_buildType u),
       b_outputPath := spread (b_outputPath b) (u_outputPath u),
       b_aabPath := spread (b_aabPath b) (u_aabPath u),
       b_keystorePath := spread (b_keystorePath b) (u_keystorePath u),
       b_errorMessage := spread (b_errorMessage b) (u_errorMessage u),
       b_progress := spread (b_progress b) (u_progress u),
       b_buildStep := spread (b_buildStep b) (u_buildStep u),
       b_buildMessage := spread (b_buildMessage b) (u_buildMessage u)\<rparr>"

text \<open>
  \<open>updateBuild\<close> returns the updated build or throws \<open>Build not found\<close>; the store after the
  call is the second component in both cases.
\<close>

definition updateBuild ::
  "time \<Rightarrow> int \<Rightarrow> build_updates \<Rightarrow> mem_storage \<Rightarrow> (string + build) \<times> mem_storage" where
  "updateBuild now i updates st =
     (case builds st i of
        None \<Rightarrow> (Inl ''Build not found'', st)
      | Some b \<Rightarrow>
          (let updatedBuild = spread_build b updates;
               updatedBuild' =
                 (if u_status updates = Some (Val ''success'') \<or> u_status updates = Some (Val ''failed'')
                  then updatedBuild\<lparr>b_completedAt := Val now\<rparr> else updatedBuild)
           in (Inr updatedBuild', st\<lparr>builds := (builds st)(i \<mapsto> updatedBuild')\<rparr>)))"

definition createProjectFile ::
  "time \<Rightarrow> int option \<Rightarrow> string \<Rightarrow> string \<Rightarrow> string \<Rightarrow> nat \<Rightarrow> mem_storage
     \<Rightarrow> project_file \<times> mem_storage" where
  "createProjectFile now projectId fileName filePath fileType fileSize st =
     (let i = fileIdCounter st;
          file = \<lparr>f_id = i, f_projectId = projectId, f_fileName = fileName, f_filePath = filePath,
                  f_fileType = fileType, f_fileSize = fileSize, f_uploadedAt = now\<rparr>
      in (file, st\<lparr>projectFiles := (projectFiles st)(i \<mapsto> file), fileIdCounter := i + 1\<rparr>))"

section \<open>The file upload route (routes.ts)\<close>

text \<open>
  A file of the multipart request as the upload middleware hands it on: the name the client
  gave, the path of the temporary copy under \<open>uploads/\<close> and the size.
\<close>

record multer_file =
  originalname :: string
  tmp_path :: string
  file_size :: nat

datatype 'a response = Created 'a | BadRequest string | MiddlewareError string

text \<open>
  \<open>upload.array('files')\<close> runs the filter on each file in turn; the first error ends the
  request and the handler is not called.
\<close>

fun filter_all :: "multer_file list \<Rightarrow> string option" where
  "filter_all [] = None"
| "filter_all (f # fs) =
     (case fileFilter (originalname f) of Inl e \<Rightarrow> Some e | Inr _ \<Rightarrow> filter_all fs)"

fun create_files ::
  "time \<Rightarrow> int option \<Rightarrow> multer_file list \<Rightarrow> mem_storage \<Rightarrow> project_file list \<times> mem_storage" where
  "create_files now projectId [] st = ([], st)"
| "create_files now projectId (file # files) st =
     (let (projectFile, st') =
            createProjectFile now projectId (originalname file) (tmp_path file)
              (extname (originalname file)) (file_size file) st;
          (uploadedFiles, st'') = create_files now projectId files st'
      in (projectFile # uploadedFiles, st''))"

text \<open>
  \<open>POST /api/projects/:id/files\<close>; \<open>projectId\<close> is \<open>parseInt\<close> of the route parameter,
  \<open>None\<close> for NaN.
\<close>

definition post_project_files ::
  "time \<Rightarrow> int option \<Rightarrow> multer_file list \<Rightarrow> mem_storage
     \<Rightarrow> project_file list response \<times> mem_storage" where
  "post_project_files now projectId files st =
     (case filter_all files of
        Some e \<Rightarrow> (MiddlewareError e, st)
      | None \<Rightarrow>
          (if files = [] then (BadRequest ''No files provided'', st)
           else (let (uploadedFiles, st') = create_files now projectId files st
                 in (Created uploadedFiles, st'))))"

section \<open>Request bodies and the insert schema of projects (shared/schema.ts)\<close>

text \<open>
  A parsed JSON body. Numbers are the integers; a later key of an object overrides an earlier
  one. Of the bodies that are no objects only arrays come to a route: the body parser answers
  any other itself.
\<close>

datatype json = JNull | JBool bool | JNum int | JStr string | JArr "json list"
  | JObj "(string \<times> json) list"

definition property :: "(string \<times> json) list \<Rightarrow> string \<Rightarrow> json option" where
  "property kvs k = map_of (rev kvs) k"

text \<open>
  The field schemas that \<open>createInsertSchema\<close> derives from the column types: a text column
  is a string, an integer column a number. \<open>num_ok\<close> is the range check that the schema library
  puts on the number of an integer column (its bounds differ between versions of the library).
\<close>

definition required_string :: "json option \<Rightarrow> string option" where
  "required_string v = (case v of Some (JStr s) \<Rightarrow> Some s | _ \<Rightarrow> None)"

definition optional_string :: "json option \<Rightarrow> string jsval option" where
  "optional_string v = (case v of None \<Rightarrow> Some Undefined | Some (JStr s) \<Rightarrow> Some (Val s) | _ \<Rightarrow> None)"

definition nullable_string :: "json option \<Rightarrow> string jsval option" where
  "nullable_string v =
     (case v of None \<Rightarrow> Some Undefined | Some JNull \<Rightarrow> Some Null | Some (JStr s) \<Rightarrow> Some (Val s)
      | _ \<Rightarrow> None)"

definition optional_number :: "(int \<Rightarrow> bool) \<Rightarrow> json option \<Rightarrow> int jsval option" where
  "optional_number num_ok v =
     (case v of None \<Rightarrow> Some Undefined
      | Some (JNum n) \<Rightarrow> (if num_ok n then Some (Val n) else None)
      | _ \<Rightarrow> None)"

text \<open>
  \<open>insertProjectSchema.parse\<close>: \<open>None\<close> stands for the thrown validation error. Keys that the
  schema does not name are dropped.
\<close>

definition insertProjectSchema_parse :: "(int \<Rightarrow> bool) \<Rightarrow> json \<Rightarrow> insert_project option" where
  "insertProjectSchema_parse num_ok body =
     (case body of
        JObj kvs \<Rightarrow>
          do {
            name \<leftarrow> required_string (property kvs ''name'');
            description \<leftarrow> nullable_string (property kvs ''description'');
            inputType \<leftarrow> required_string (property kvs ''inputType'');
            websiteUrl \<leftarrow> nullable_string (property kvs ''websiteUrl'');
            packageName \<leftarrow> required_string (property kvs ''packageName'');
            appName \<leftarrow> required_string (property kvs ''appName'');
            version \<leftarrow> optional_string (property kvs ''version'');
            versionCode \<leftarrow> optional_number num_ok (property kvs ''versionCode'');
            versionName \<leftarrow> optional_string (property kvs ''versionName'');
            minSdkVersion \<leftarrow> optional_number num_ok (property kvs ''minSdkVersion'');
            targetSdkVersion \<leftarrow> optional_number num_ok (property kvs ''targetSdkVersion'');
            iconPath \<leftarrow> nullable_string (property kvs ''iconPath'');
            logoPath \<leftarrow> nullable_string (property kvs ''logoPath'');
            Some \<lparr>ip_name = name, ip_description = description, ip_inputType = inputType,
              ip_websiteUrl = websiteUrl, ip_packageName = packageName, ip_appName = appName,
              ip_version = version, ip_versionCode = versionCode, ip_versionName = versionName,
              ip_minSdkVersion = minSdkVersion, ip_targetSdkVersion = targetSdkVersion,
              ip_iconPath = iconPath, ip_logoPath = logoPath\<rparr>
          }
      | _ \<Rightarrow> None)"

text \<open>\<open>POST /api/projects\<close>: status 201 with the project, or 400 with a fixed message.\<close>

definition post_projects ::
  "(int \<Rightarrow> bool) \<Rightarrow> time \<Rightarrow> json \<Rightarrow> mem_storage \<Rightarrow> project response \<times> mem_storage" where
  "post_projects num_ok now body st =
     (case insertProjectSchema_parse num_ok body of
        None \<Rightarrow> (BadRequest ''Invalid project data'', st)
      | Some projectData \<Rightarrow>
          (let (project, st') = createProject now projectData st in (Created project, st')))"

text \<open>
  Modelled from the spec: the reverse-domain pattern of a package identifier, for which the
  repository has no code. Two or more segments separated by dots, each one a letter followed by
  letters, digits and underscores.
\<close>

fun split_on :: "char \<Rightarrow> string \<Rightarrow> string list" where
  "split_on d [] = [[]]"
| "split_on d (c # cs) =
     (if c = d then [] # split_on d cs
      else (case split_on d cs of [] \<Rightarrow> [[c]] | s # ss \<Rightarrow> (c # s) # ss))"

definition is_letter :: "char \<Rightarrow> bool" where
  "is_letter c = (let n = (of_char c :: nat) in (65 \<le> n \<and> n \<le> 90) \<or> (97 \<le> n \<and> n \<le> 122))"

definition is_digit :: "char \<Rightarrow> bool" where
  "is_digit c = (let n = (of_char c :: nat) in 48 \<le> n \<and> n \<le> 57)"

definition identifier_segment :: "string \<Rightarrow> bool" where
  "identifier_segment s =
     (case s of [] \<Rightarrow> False
      | c # cs \<Rightarrow> is_letter c \<and> list_all (\<lambda>x. is_letter x \<or> is_digit x \<or> x = CHR ''_'') cs)"

definition reverse_domain :: "string \<Rightarrow> bool" where
  "reverse_domain s =
     (let segs = split_on (CHR ''.'') s in 2 \<le> length segs \<and> list_all identifier_segment segs)"

section \<open>Actions that may throw\<close>

text \<open>
  A step of a build reads and changes a state and either returns a value or throws an error with
  a message; the state after the step is there in both cases, for the handler of a
  \<open>try\<close>/\<open>catch\<close> runs on it.
\<close>

type_synonym ('s, 'a) action = "'s \<Rightarrow> (string + 'a) \<times> 's"

definition ok :: "'a \<Rightarrow> ('s, 'a) action" where
  "ok a s = (Inr a, s)"

definition throw :: "string \<Rightarrow> ('s, 'a) action" where
  "throw e s = (Inl e, s)"

definition and_then :: "('s, 'a) action \<Rightarrow> ('a \<Rightarrow> ('s, 'b) action) \<Rightarrow> ('s, 'b) action" where
  "and_then m f s = (case m s of (Inl e, s') \<Rightarrow> (Inl e, s') | (Inr a, s') \<Rightarrow> f a s')"

definition try_catch :: "('s, 'a) action \<Rightarrow> (string \<Rightarrow> ('s, 'a) action) \<Rightarrow> ('s, 'a) action" where
  "try_catch m h s = (case m s of (Inl e, s') \<Rightarrow> h e s' | (Inr a, s') \<Rightarrow> (Inr a, s'))"

text \<open>The outcome of an external process: its error, or what it produced.\<close>

definition run_tool :: "string + 'a \<Rightarrow> ('s, 'a) action" where
  "run_tool outcome = (case outcome of Inl e \<Rightarrow> throw e | Inr a \<Rightarrow> ok a)"

section \<open>Paths and the disk\<close>

text \<open>
  A path is absolute and normalised: the list of its segments. \<open>path.join\<close> onto such a path
  splits the other argument at the separators, skips empty segments and \<open>.\<close>, and steps up
  one directory at \<open>..\<close> (staying at the root when there is nothing above). A separator at
  the end of the argument is not kept.
\<close>

type_synonym path = "string list"

fun resolve :: "path \<Rightarrow> string list \<Rightarrow> path" where
  "resolve p [] = p"
| "resolve p (s # ss) =
     (if s = '''' \<or> s = ''.'' then resolve p ss
      else if s = ''..'' then resolve (butlast p) ss
      else resolve (p @ [s]) ss)"

definition path_join :: "path \<Rightarrow> string \<Rightarrow> path" where
  "path_join p s = resolve p (split_on (CHR ''/'') s)"

definition join_all :: "path \<Rightarrow> string list \<Rightarrow> path" where
  "join_all p ss = foldl path_join p ss"

definition dirname :: "path \<Rightarrow> path" where
  "dirname p = butlast p"

definition render_path :: "path \<Rightarrow> string" where
  "render_path p = (if p = [] then ''/'' else concat (map (\<lambda>s. CHR ''/'' # s) p))"

definition parse_path :: "string \<Rightarrow> path" where
  "parse_path s = resolve [] (split_on (CHR ''/'') s)"

text \<open>\<open>String.prototype.replace\<close> with a string pattern: the first occurrence only.\<close>

fun replace_first :: "string \<Rightarrow> string \<Rightarrow> string \<Rightarrow> string" where
  "replace_first pat rep [] = (if pat = [] then rep else [])"
| "replace_first pat rep (c # cs) =
     (if take (length pat) (c # cs) = pat then rep @ drop (length pat) (c # cs)
      else c # replace_first pat rep cs)"

text \<open>
  A file holds bytes or, when an archiver wrote it, an archive: the entries by their names,
  which are split at the separators like paths.
\<close>

datatype content = Bytes string | Archive "string list \<Rightarrow> content option"

datatype node = File content | Dir

record disk =
  nodes :: "path \<rightharpoonup> node"
  tick :: nat

definition bytes :: "nat list \<Rightarrow> string" where
  "bytes ns = map char_of ns"

text \<open>
  Every call of the file system counts one tick. A call that writes fails when the run's
  outcome for that tick says so (a full disk, a missing permission, a file in the way), and has
  its effect otherwise; a call that reads fails also when what it reads is not there.
\<close>

definition fs_call ::
  "(nat \<Rightarrow> string option) \<Rightarrow> ((path \<rightharpoonup> node) \<Rightarrow> string + (path \<rightharpoonup> node)) \<Rightarrow> (disk, unit) action" where
  "fs_call io_error f d =
     (case io_error (tick d) of
        Some e \<Rightarrow> (Inl e, d\<lparr>tick := tick d + 1\<rparr>)
      | None \<Rightarrow>
          (case f (nodes d) of
             Inl e \<Rightarrow> (Inl e, d\<lparr>tick := tick d + 1\<rparr>)
           | Inr n \<Rightarrow> (Inr (), \<lparr>nodes = n, tick = tick d + 1\<rparr>)))"

text \<open>\<open>fs.mkdir(p, { recursive: true })\<close>: the directories of \<open>p\<close> that are missing.\<close>

definition is_prefix :: "path \<Rightarrow> path \<Rightarrow> bool" where
  "is_prefix q p = (take (length q) p = q)"

definition with_directories :: "path \<Rightarrow> (path \<rightharpoonup> node) \<Rightarrow> (path \<rightharpoonup> node)" where
  "with_directories p n = (\<lambda>q. if q \<noteq> [] \<and> is_prefix q p \<and> n q = None then Some Dir else n q)"

definition mkdir :: "(nat \<Rightarrow> string option) \<Rightarrow> path \<Rightarrow> (disk, unit) action" where
  "mkdir io_error p = fs_call io_error (\<lambda>n. Inr (with_directories p n))"

definition writeFile :: "(nat \<Rightarrow> string option) \<Rightarrow> path \<Rightarrow> content \<Rightarrow> (disk, unit) action" where
  "writeFile io_error p c = fs_call io_error (\<lambda>n. Inr (n(p \<mapsto> File c)))"

definition copyFile :: "(nat \<Rightarrow> string option) \<Rightarrow> path \<Rightarrow> path \<Rightarrow> (disk, unit) action" where
  "copyFile io_error src dest =
     fs_call io_error (\<lambda>n. case n src of
        Some (File c) \<Rightarrow> Inr (n(dest \<mapsto> File c))
      | _ \<Rightarrow> Inl ''ENOENT: no such file or directory'')"

definition access :: "(nat \<Rightarrow> string option) \<Rightarrow> path \<Rightarrow> (disk, unit) action" where
  "access io_error p =
     fs_call io_error (\<lambda>n. if p = [] \<or> n p \<noteq> None then Inr n
        else Inl ''ENOENT: no such file or directory'')"

definition existsSync :: "disk \<Rightarrow> path \<Rightarrow> bool" where
  "existsSync d p = (p = [] \<or> nodes d p \<noteq> None)"

text \<open>The file that an external process leaves at \<open>p\<close>, with the directories above it.\<close>

definition tool_output :: "path \<Rightarrow> content \<Rightarrow> (disk, unit) action" where
  "tool_output p c d = (Inr (), d\<lparr>nodes := (with_directories (dirname p) (nodes d))(p \<mapsto> File c)\<rparr>)"

text \<open>
  The entries that \<open>archive.file\<close> and \<open>archive.directory\<close> add: the file under a fixed name,
  and every file below a directory under the destination prefix and its relative path. Both
  are guarded by \<open>fs.existsSync\<close> where the builders use them.
\<close>

type_synonym entries = "string list \<Rightarrow> content option"

definition archive_file :: "(path \<rightharpoonup> node) \<Rightarrow> path \<Rightarrow> string list \<Rightarrow> entries" where
  "archive_file n p name =
     (case n p of Some (File c) \<Rightarrow> (\<lambda>e. if e = name then Some c else None) | _ \<Rightarrow> Map.empty)"

definition archive_directory :: "(path \<rightharpoonup> node) \<Rightarrow> path \<Rightarrow> string list \<Rightarrow> entries" where
  "archive_directory n dir dest =
     (if n dir = None then Map.empty
      else (\<lambda>e. if is_prefix dest e \<and> length dest < length e
                then (case n (dir @ drop (length dest) e) of Some (File c) \<Rightarrow> Some c | _ \<Rightarrow> None)
                else None))"

definition archive_append :: "content \<Rightarrow> string list \<Rightarrow> entries" where
  "archive_append c name = (\<lambda>e. if e = name then Some c else None)"

section \<open>RealAndroidBuildSystem (real-android-build-system.ts)\<close>

record build_config =
  appName :: string
  packageName :: string
  versionCode :: int
  versionName :: string
  websiteUrl :: "string option"
  files :: "(string \<times> string) list"
  keystoreValidity :: "int jsval"
  keystorePassword :: "string jsval"
  keyAlias :: "string jsval"
  developerName :: "string jsval"
  organizationName :: "string jsval"
  city :: "string jsval"
  state :: "string jsval"
  country :: "string jsval"

record build_result =
  r_success :: bool
  r_apkPath :: "path option"
  r_aabPath :: "path option"
  r_keystorePath :: "path option"
  r_error :: "string option"
  r_buildId :: string
  r_progress :: "int option"

record build_progress =
  step :: string
  progress :: int
  message :: string

text \<open>
  The texts that the builder writes are templates of the source with fields of the
  configuration filled in. No step of the builder reads them back, so a run takes the filled
  template as given, by its name.
\<close>

datatype template = ManifestXml | MainActivityJava | ActivityMainXml | StringsXml | ColorsXml
  | StylesXml | LoaderHtml | ProjectBuildGradle | AppBuildGradle | SettingsGradle
  | GradleProperties | ProguardRules | GradleWrapperProperties | Gradlew

text \<open>
  What is outside the program in one run: the working directory, the identifier that
  \<open>nanoid\<close> draws, the failures of the file system by tick, and for each external process
  its error or its product (for Gradle: the exit without error may or may not leave the file).
  For the archiver of a manual package or bundle it is the error of its \<open>error\<close> event, if it
  reports one while it packs (a file of the project that it cannot open): the listener of that
  event rejects the promise. The write stream of the archive has no listener for its own
  errors, so a stream that fails rejects nothing and the promise is never settled; the runs
  that the model describes are those in which these streams work.
\<close>

record build_env =
  cwd :: path
  nanoid :: string
  io_error :: "nat \<Rightarrow> string option"
  render :: "template \<Rightarrow> build_config \<Rightarrow> string"
  convert :: "nat \<Rightarrow> string + content"
  chmod :: "string option"
  keytool :: "string + content"
  gradle_assemble :: "string + content option"
  archiver_apk :: "string option"
  jarsigner :: "string + content"
  gradle_bundle :: "string + content option"
  archiver_aab :: "string option"
  read_upload :: "string \<Rightarrow> string + string"

definition buildDir :: "build_env \<Rightarrow> path" where
  "buildDir env = path_join (cwd env) ''android-builds''"

definition outputDir :: "build_env \<Rightarrow> path" where
  "outputDir env = path_join (cwd env) ''build-outputs''"

definition androidSdkPath :: "build_env \<Rightarrow> path" where
  "androidSdkPath env = path_join (cwd env) ''android-sdk''"

definition ensureDirectories :: "build_env \<Rightarrow> (disk, unit) action" where
  "ensureDirectories env =
     and_then (mkdir (io_error env) (buildDir env)) (\<lambda>_.
     and_then (mkdir (io_error env) (outputDir env)) (\<lambda>_.
     mkdir (io_error env) (androidSdkPath env)))"

text \<open>The constructor starts \<open>ensureDirectories\<close> and drops its promise, with any error.\<close>

definition new_build_system :: "build_env \<Rightarrow> disk \<Rightarrow> disk" where
  "new_build_system env d = snd (ensureDirectories env d)"

definition writeText ::
  "build_env \<Rightarrow> path \<Rightarrow> template \<Rightarrow> build_config \<Rightarrow> (disk, unit) action" where
  "writeText env p t config = writeFile (io_error env) p (Bytes (render env t config))"

definition generateManifest :: "build_env \<Rightarrow> path \<Rightarrow> build_config \<Rightarrow> (disk, unit) action" where
  "generateManifest env srcDir config =
     writeText env (path_join srcDir ''AndroidManifest.xml'') ManifestXml config"

definition generateMainActivity :: "build_env \<Rightarrow> path \<Rightarrow> build_config \<Rightarrow> (disk, unit) action" where
  "generateMainActivity env javaDir config =
     writeText env (path_join javaDir ''MainActivity.java'') MainActivityJava config"

definition generateLayoutFiles :: "build_env \<Rightarrow> path \<Rightarrow> build_config \<Rightarrow> (disk, unit) action" where
  "generateLayoutFiles env resDir config =
     writeText env (join_all resDir [''layout'', ''activity_main.xml'']) ActivityMainXml config"

definition generateResources :: "build_env \<Rightarrow> path \<Rightarrow> build_config \<Rightarrow> (disk, unit) action" where
  "generateResources env resDir config =
     and_then (writeText env (join_all resDir [''values'', ''strings.xml'']) StringsXml config) (\<lambda>_.
     and_then (writeText env (join_all resDir [''values'', ''colors.xml'']) ColorsXml config) (\<lambda>_.
     writeText env (join_all resDir [''values'', ''styles.xml'']) StylesXml config))"

definition pngHeader :: "nat \<Rightarrow> string" where
  "pngHeader sz = bytes
     [0x89, 0x50, 0x4E, 0x47, 0x0D, 0x0A, 0x1A, 0x0A,
      0x00, 0x00, 0x00, 0x0D, 0x49, 0x48, 0x44, 0x52,
      0x00, 0x00, 0x00, sz, 0x00, 0x00, 0x00, sz,
      0x08, 0x02, 0x00, 0x00, 0x00, 0x00, 0x00, 0x00,
      0x00, 0x00, 0x00, 0x00, 0x49, 0x45, 0x4E, 0x44,
      0xAE, 0x42, 0x60, 0x82]"

text \<open>The icon by ImageMagick, or the fixed header when that fails.\<close>

definition createAppIcon :: "build_env \<Rightarrow> path \<Rightarrow> nat \<Rightarrow> string \<Rightarrow> (disk, unit) action" where
  "createAppIcon env iconPath sz name =
     try_catch
       (and_then (run_tool (convert env sz)) (\<lambda>icon. tool_output iconPath icon))
       (\<lambda>error. writeFile (io_error env) iconPath (Bytes (pngHeader sz)))"

definition iconSizes :: "(string \<times> nat) list" where
  "iconSizes = [(''mipmap-hdpi'', 72), (''mipmap-mdpi'', 48), (''mipmap-xhdpi'', 96),
     (''mipmap-xxhdpi'', 144), (''mipmap-xxxhdpi'', 192)]"

fun create_icons :: "build_env \<Rightarrow> path \<Rightarrow> string \<Rightarrow> (string \<times> nat) list \<Rightarrow> (disk, unit) action" where
  "create_icons env resDir name [] = ok ()"
| "create_icons env resDir name (iconSize # rest) =
     and_then (createAppIcon env (join_all resDir [fst iconSize, ''ic_launcher.png'']) (snd iconSize) name)
       (\<lambda>_. create_icons env resDir name rest)"

definition generateAppIcons :: "build_env \<Rightarrow> path \<Rightarrow> build_config \<Rightarrow> (disk, unit) action" where
  "generateAppIcons env resDir config = create_icons env resDir (appName config) iconSizes"

text \<open>The loop of \<open>copyWebAssets\<close>: make the directory of the file, then write the file.\<close>

fun copy_files :: "build_env \<Rightarrow> path \<Rightarrow> (string \<times> string) list \<Rightarrow> (disk, unit) action" where
  "copy_files env assetsDir [] = ok ()"
| "copy_files env assetsDir (file # rest) =
     (let filePath = path_join assetsDir (fst file)
      in and_then (mkdir (io_error env) (dirname filePath)) (\<lambda>_.
         and_then (writeFile (io_error env) filePath (Bytes (snd file))) (\<lambda>_.
         copy_files env assetsDir rest)))"

definition copyWebAssets :: "build_env \<Rightarrow> path \<Rightarrow> build_config \<Rightarrow> (disk, unit) action" where
  "copyWebAssets env assetsDir config =
     (if files config \<noteq> [] then copy_files env assetsDir (files config) else ok ())"

definition truthy :: "string option \<Rightarrow> bool" where
  "truthy v = (case v of None \<Rightarrow> False | Some s \<Rightarrow> s \<noteq> '''')"

definition createWebsiteAssets :: "build_env \<Rightarrow> path \<Rightarrow> build_config \<Rightarrow> (disk, unit) action" where
  "createWebsiteAssets env assetsDir config =
     (if truthy (websiteUrl config)
      then writeText env (path_join assetsDir ''index.html'') LoaderHtml config else ok ())"

text \<open>\<open>packageName.replace(/\./g, '/')\<close>.\<close>

definition dots_to_slashes :: "string \<Rightarrow> string" where
  "dots_to_slashes s = map (\<lambda>c. if c = CHR ''.'' then CHR ''/'' else c) s"

definition srcDir_of :: "path \<Rightarrow> path" where
  "srcDir_of projectDir = join_all projectDir [''app'', ''src'', ''main'']"

definition createAndroidProject :: "build_env \<Rightarrow> path \<Rightarrow> build_config \<Rightarrow> (disk, unit) action" where
  "createAndroidProject env projectDir config =
     (let packagePath = dots_to_slashes (packageName config);
          srcDir = srcDir_of projectDir;
          javaDir = join_all srcDir [''java'', packagePath];
          resDir = path_join srcDir ''res'';
          assetsDir = path_join srcDir ''assets''
      in and_then (mkdir (io_error env) javaDir) (\<lambda>_.
         and_then (mkdir (io_error env) (path_join resDir ''layout'')) (\<lambda>_.
         and_then (mkdir (io_error env) (path_join resDir ''values'')) (\<lambda>_.
         and_then (mkdir (io_error env) (path_join resDir ''drawable'')) (\<lambda>_.
         and_then (mkdir (io_error env) (path_join resDir ''mipmap-hdpi'')) (\<lambda>_.
         and_then (mkdir (io_error env) (path_join resDir ''mipmap-mdpi'')) (\<lambda>_.
         and_then (mkdir (io_error env) (path_join resDir ''mipmap-xhdpi'')) (\<lambda>_.
         and_then (mkdir (io_error env) (path_join resDir ''mipmap-xxhdpi'')) (\<lambda>_.
         and_then (mkdir (io_error env) (path_join resDir ''mipmap-xxxhdpi'')) (\<lambda>_.
         and_then (mkdir (io_error env) assetsDir) (\<lambda>_.
         and_then (generateManifest env srcDir config) (\<lambda>_.
         and_then (generateMainActivity env javaDir config) (\<lambda>_.
         and_then (generateLayoutFiles env resDir config) (\<lambda>_.
         and_then (generateResources env resDir config) (\<lambda>_.
         and_then (generateAppIcons env resDir config) (\<lambda>_.
         if files config \<noteq> [] then copyWebAssets env assetsDir config
         else if truthy (websiteUrl config) then createWebsiteAssets env assetsDir config
         else ok ()))))))))))))))))"

definition createGradleWrapper :: "build_env \<Rightarrow> path \<Rightarrow> build_config \<Rightarrow> (disk, unit) action" where
  "createGradleWrapper env projectDir config =
     (let gradleWrapperDir = join_all projectDir [''gradle'', ''wrapper'']
      in and_then (mkdir (io_error env) gradleWrapperDir) (\<lambda>_.
         and_then (writeText env (path_join gradleWrapperDir ''gradle-wrapper.properties'')
                     GradleWrapperProperties config) (\<lambda>_.
         and_then (writeText env (path_join projectDir ''gradlew'') Gradlew config) (\<lambda>_.
         try_catch (run_tool (case chmod env of Some e \<Rightarrow> Inl e | None \<Rightarrow> Inr ()))
           (\<lambda>error. ok ())))))"

definition setupGradleBuild :: "build_env \<Rightarrow> path \<Rightarrow> build_config \<Rightarrow> (disk, unit) action" where
  "setupGradleBuild env projectDir config =
     and_then (writeText env (path_join projectDir ''build.gradle'') ProjectBuildGradle config) (\<lambda>_.
     and_then (writeText env (join_all projectDir [''app'', ''build.gradle'']) AppBuildGradle config) (\<lambda>_.
     and_then (writeText env (path_join projectDir ''settings.gradle'') SettingsGradle config) (\<lambda>_.
     and_then (writeText env (path_join projectDir ''gradle.properties'') GradleProperties config) (\<lambda>_.
     and_then (writeText env (join_all projectDir [''app'', ''proguard-rules.pro'']) ProguardRules config) (\<lambda>_.
     createGradleWrapper env projectDir config)))))"

definition dexHeader :: string where
  "dexHeader = bytes
     [0x64, 0x65, 0x78, 0x0A, 0x30, 0x33, 0x35, 0x00,
      0x70, 0x00, 0x00, 0x00, 0x78, 0x56, 0x34, 0x12]"

definition manifestMF :: string where
  "manifestMF = ''Manifest-Version: 1.0'' @ [CHR 0x0A] @ ''Created-By: Android Builder'' @ [CHR 0x0A]"

text \<open>
  The entries of the manual package, in the order of the source: the manifest, the resources,
  the assets, a minimal \<open>classes.dex\<close> and the manifest of \<open>META-INF\<close>. The names are
  disjoint, so the union of the entries is their archive. \<open>createManualAPK\<close> resolves with
  the path when the stream has closed, and rejects with the error that the archiver reports.
\<close>

definition manual_apk_entries :: "(path \<rightharpoonup> node) \<Rightarrow> path \<Rightarrow> entries" where
  "manual_apk_entries n projectDir =
     (let srcDir = srcDir_of projectDir
      in archive_file n (path_join srcDir ''AndroidManifest.xml'') [''AndroidManifest.xml'']
         ++ archive_directory n (path_join srcDir ''res'') [''res'']
         ++ archive_directory n (path_join srcDir ''assets'') [''assets'']
         ++ archive_append (Bytes dexHeader) [''classes.dex'']
         ++ archive_append (Bytes manifestMF) [''META-INF'', ''MANIFEST.MF''])"

definition createManualAPK :: "build_env \<Rightarrow> path \<Rightarrow> build_config \<Rightarrow> (disk, path) action" where
  "createManualAPK env projectDir config =
     (let apkPath = path_join projectDir ''app-release.apk''
      in (\<lambda>d. case archiver_apk env of
            Some err \<Rightarrow> (Inl err, d)
          | None \<Rightarrow>
              (Inr apkPath,
               d\<lparr>nodes := (nodes d)(apkPath \<mapsto> File (Archive (manual_apk_entries (nodes d) projectDir)))\<rparr>)))"

definition buildWithGradle :: "build_env \<Rightarrow> path \<Rightarrow> build_config \<Rightarrow> (disk, path) action" where
  "buildWithGradle env projectDir config =
     try_catch
       (and_then (run_tool (gradle_assemble env)) (\<lambda>out.
        let apkPath = join_all projectDir
              [''app'', ''build'', ''outputs'', ''apk'', ''release'', ''app-release.apk'']
        in and_then (case out of Some apk \<Rightarrow> tool_output apkPath apk | None \<Rightarrow> ok ()) (\<lambda>_.
           and_then (access (io_error env) apkPath) (\<lambda>_.
           ok apkPath))))
       (\<lambda>error. createManualAPK env projectDir config)"

definition generateKeystore :: "build_env \<Rightarrow> path \<Rightarrow> build_config \<Rightarrow> (disk, path) action" where
  "generateKeystore env projectDir config =
     (let keystorePath = path_join projectDir ''app.jks''
      in and_then (run_tool (keytool env)) (\<lambda>keystore.
         and_then (tool_output keystorePath keystore) (\<lambda>_.
         ok keystorePath)))"

text \<open>
  \<open>jarsigner\<close> without \<open>-signedjar\<close> signs the archive in place. Any error of the \<open>try\<close>
  block, of the signer or of the copy, makes \<open>signAPK\<close> return the path it was given.
\<close>

definition signAPK :: "build_env \<Rightarrow> path \<Rightarrow> path \<Rightarrow> build_config \<Rightarrow> (disk, path) action" where
  "signAPK env apkPath keystorePath config =
     (let signedApkPath = parse_path (replace_first ''.apk'' ''-signed.apk'' (render_path apkPath))
      in try_catch
           (and_then (run_tool (jarsigner env)) (\<lambda>signed.
            and_then (tool_output apkPath signed) (\<lambda>_.
            and_then (copyFile (io_error env) apkPath signedApkPath) (\<lambda>_.
            ok signedApkPath))))
           (\<lambda>error. ok apkPath))"

definition bundleConfig :: string where
  "bundleConfig = bytes [0x08, 0x01, 0x12, 0x04, 0x62, 0x61, 0x73, 0x65]"

text \<open>
  The manual bundle: the directory of the sources under \<open>base\<close>, and the configuration.
  \<open>createManualAAB\<close> settles like \<open>createManualAPK\<close>: \<open>archive.on('error', reject)\<close> is its
  only way to throw.
\<close>

definition manual_aab_entries :: "(path \<rightharpoonup> node) \<Rightarrow> path \<Rightarrow> entries" where
  "manual_aab_entries n projectDir =
     archive_directory n (srcDir_of projectDir) [''base'']
     ++ archive_append (Bytes bundleConfig) [''BundleConfig.pb'']"

definition createManualAAB :: "build_env \<Rightarrow> path \<Rightarrow> build_config \<Rightarrow> (disk, path) action" where
  "createManualAAB env projectDir config =
     (let aabPath = path_join projectDir ''app-release.aab''
      in (\<lambda>d. case archiver_aab env of
            Some err \<Rightarrow> (Inl err, d)
          | None \<Rightarrow>
              (Inr aabPath,
               d\<lparr>nodes := (nodes d)(aabPath \<mapsto> File (Archive (manual_aab_entries (nodes d) projectDir)))\<rparr>)))"

definition createAAB :: "build_env \<Rightarrow> path \<Rightarrow> build_config \<Rightarrow> (disk, path) action" where
  "createAAB env projectDir config =
     (let aabPath = path_join projectDir ''app-release.aab''
      in try_catch
           (and_then (run_tool (gradle_bundle env)) (\<lambda>out.
            let gradleAabPath = join_all projectDir
                  [''app'', ''build'', ''outputs'', ''bundle'', ''release'', ''app-release.aab'']
            in and_then (case out of Some aab \<Rightarrow> tool_output gradleAabPath aab | None \<Rightarrow> ok ()) (\<lambda>_.
               and_then (copyFile (io_error env) gradleAabPath aabPath) (\<lambda>_.
               ok aabPath))))
           (\<lambda>error. createManualAAB env projectDir config))"

text \<open>
  \<open>buildAPK\<close> runs on the disk and on the list of the progress reports it has made so far:
  \<open>stage\<close> runs a step on the disk, \<open>onProgress\<close> adds a report.
\<close>

definition stage :: "(disk, 'a) action \<Rightarrow> (disk \<times> build_progress list, 'a) action" where
  "stage m s = (case m (fst s) of (r, d') \<Rightarrow> (r, (d', snd s)))"

definition onProgress :: "string \<Rightarrow> int \<Rightarrow> string \<Rightarrow> (disk \<times> build_progress list, unit) action" where
  "onProgress st p msg s = (Inr (), (fst s, snd s @ [\<lparr>step = st, progress = p, message = msg\<rparr>]))"

definition buildAPK_steps :: "build_env \<Rightarrow> build_config \<Rightarrow> (disk \<times> build_progress list, build_result) action" where
  "buildAPK_steps env config =
     (let buildId = nanoid env in
      and_then (onProgress ''Initializing'' 5 ''Setting up Android build environment...'') (\<lambda>_.
      let projectDir = path_join (buildDir env) buildId in
      and_then (stage (mkdir (io_error env) projectDir)) (\<lambda>_.
      and_then (onProgress ''Creating project'' 15 ''Creating Android project structure...'') (\<lambda>_.
      and_then (stage (createAndroidProject env projectDir config)) (\<lambda>_.
      and_then (onProgress ''Generating keystore'' 30 ''Generating signing keystore...'') (\<lambda>_.
      and_then (stage (generateKeystore env projectDir config)) (\<lambda>keystorePath.
      and_then (onProgress ''Creating gradle build'' 45 ''Setting up Gradle build system...'') (\<lambda>_.
      and_then (stage (setupGradleBuild env projectDir config)) (\<lambda>_.
      and_then (onProgress ''Building APK'' 60 ''Compiling and building APK...'') (\<lambda>_.
      and_then (stage (buildWithGradle env projectDir config)) (\<lambda>apkPath.
      and_then (onProgress ''Signing APK'' 75 ''Signing APK with keystore...'') (\<lambda>_.
      and_then (stage (signAPK env apkPath keystorePath config)) (\<lambda>signedApkPath.
      and_then (onProgress ''Creating AAB'' 85 ''Creating App Bundle...'') (\<lambda>_.
      and_then (stage (createAAB env projectDir config)) (\<lambda>aabPath.
      and_then (onProgress ''Finalizing'' 95 ''Finalizing build outputs...'') (\<lambda>_.
      let finalApkPath = path_join (outputDir env) (buildId @ ''-signed.apk'');
          finalAabPath = path_join (outputDir env) (buildId @ ''-bundle.aab'');
          finalKeystorePath = path_join (outputDir env) (buildId @ ''-keystore.jks'') in
      and_then (stage (copyFile (io_error env) signedApkPath finalApkPath)) (\<lambda>_.
      and_then (stage (copyFile (io_error env) aabPath finalAabPath)) (\<lambda>_.
      and_then (stage (copyFile (io_error env) keystorePath finalKeystorePath)) (\<lambda>_.
      and_then (onProgress ''Complete'' 100 ''Build completed successfully!'') (\<lambda>_.
      ok \<lparr>r_success = True, r_apkPath = Some finalApkPath, r_aabPath = Some finalAabPath,
          r_keystorePath = Some finalKeystorePath, r_error = None, r_buildId = buildId,
          r_progress = Some 100\<rparr>))))))))))))))))))))"

text \<open>The \<open>catch\<close> of \<open>buildAPK\<close> turns every error of the steps into a result.\<close>

definition buildAPK ::
  "build_env \<Rightarrow> build_config \<Rightarrow> disk \<Rightarrow> build_result \<times> disk \<times> build_progress list" where
  "buildAPK env config d =
     (case buildAPK_steps env config (d, []) of
        (Inr result, s) \<Rightarrow> (result, s)
      | (Inl error, s) \<Rightarrow>
          (\<lparr>r_success = False, r_apkPath = None, r_aabPath = None, r_keystorePath = None,
            r_error = Some error, r_buildId = nanoid env, r_progress = Some 0\<rparr>, s))"

section \<open>WorkingAndroidBuilder (working-android-builder.ts)\<close>

text \<open>
  The builder with an alignment step whose builds can succeed (the other one,
  \<open>ProfessionalAndroidBuilder\<close>, runs a \<open>gradlew\<close> that it writes itself and that calls
  itself, so none of its builds gets as far as its \<open>signAPK\<close>). Its configuration names the
  keystore by a path, and its result has neither a keystore path nor a percentage. It keeps
  its projects in \<open>builds\<close> and its products in \<open>outputs\<close>.
\<close>

record builder_config =
  c_appName :: string
  c_packageName :: string
  c_versionCode :: int
  c_versionName :: string
  c_websiteUrl :: "string option"
  c_files :: "(string \<times> string) list option"
  c_keystorePath :: "string jsval"
  c_keystorePassword :: "string jsval"
  c_keyAlias :: "string jsval"
  c_keyPassword :: "string jsval"

text \<open>
  What is outside this builder in one run, in addition: the error, if any, of each step that
  writes the sources of the project (the files of these steps are read by the archiver only
  and are not on the disk of the model); what \<open>zipalign\<close> leaves at its output path, or its
  error when it fails or is not installed; and the archives that the archiver packs from the
  project.
\<close>

record builder_env = build_env +
  step_error :: "string \<Rightarrow> string option"
  zipalign :: "string + content option"
  package_archive :: content
  bundle_archive :: content

definition project_step :: "builder_env \<Rightarrow> string \<Rightarrow> ('s, unit) action" where
  "project_step env name = (case step_error env name of Some e \<Rightarrow> throw e | None \<Rightarrow> ok ())"

definition builds_dir :: "builder_env \<Rightarrow> path" where
  "builds_dir env = path_join (cwd env) ''builds''"

definition outputs_dir :: "builder_env \<Rightarrow> path" where
  "outputs_dir env = path_join (cwd env) ''outputs''"

text \<open>A path of the configuration, as the file system reads it: relative to the working directory.\<close>

definition fs_path :: "path \<Rightarrow> string \<Rightarrow> path" where
  "fs_path wd s = (if take 1 s = ''/'' then parse_path s else path_join wd s)"

text \<open>\<open>config.keystorePath && fs.existsSync(config.keystorePath)\<close>\<close>

definition keystore_exists :: "builder_env \<Rightarrow> builder_config \<Rightarrow> disk \<Rightarrow> bool" where
  "keystore_exists env config d =
     (case c_keystorePath config of
        Val s \<Rightarrow> s \<noteq> '''' \<and> existsSync d (fs_path (cwd env) s)
      | _ \<Rightarrow> False)"

definition file_name :: "builder_config \<Rightarrow> string \<Rightarrow> string" where
  "file_name config ext = c_appName config @ ''-'' @ c_versionName config @ ext"

text \<open>
  The archiver writes the package into \<open>outputs\<close>, or rejects with the error that it
  reports; as in \<open>createManualAPK\<close>, the write stream has no listener of its own.
\<close>

definition packageAPK :: "builder_env \<Rightarrow> path \<Rightarrow> builder_config \<Rightarrow> (disk, path) action" where
  "packageAPK env projectDir config =
     (let apkPath = path_join (outputs_dir env) (file_name config ''.apk'')
      in and_then (project_step env ''createMetaInf'') (\<lambda>_.
         (\<lambda>d. case archiver_apk env of
            Some err \<Rightarrow> (Inl err, d)
          | None \<Rightarrow> (Inr apkPath, d\<lparr>nodes := (nodes d)(apkPath \<mapsto> File (package_archive env))\<rparr>))))"

text \<open>
  \<open>signAPK\<close> always returns the path of the file named \<open>-signed.apk\<close>. With a keystore it signs
  the package in place and aligns it into that file; when \<open>zipalign\<close> throws, it copies the
  signed package there instead. The \<open>catch\<close> copies the package too, and an error of this last
  copy is thrown.
\<close>

definition signAPK_working :: "builder_env \<Rightarrow> path \<Rightarrow> builder_config \<Rightarrow> (disk, path) action" where
  "signAPK_working env apkPath config =
     (let signedApkPath = path_join (outputs_dir env) (file_name config ''-signed.apk'')
      in try_catch
           (and_then
              (\<lambda>d. if keystore_exists env config d
                    then and_then (run_tool (jarsigner env)) (\<lambda>signed.
                         and_then (tool_output apkPath signed) (\<lambda>_.
                         try_catch
                           (and_then (run_tool (zipalign env)) (\<lambda>out.
                            case out of Some aligned \<Rightarrow> tool_output signedApkPath aligned
                            | None \<Rightarrow> ok ()))
                           (\<lambda>error. copyFile (io_error env) apkPath signedApkPath))) d
                    else copyFile (io_error env) apkPath signedApkPath d) (\<lambda>_.
            ok signedApkPath))
           (\<lambda>error. and_then (copyFile (io_error env) apkPath signedApkPath) (\<lambda>_.
                     ok signedApkPath)))"

definition createAAB_working :: "builder_env \<Rightarrow> path \<Rightarrow> builder_config \<Rightarrow> (disk, path) action" where
  "createAAB_working env projectDir config =
     (let aabPath = path_join (outputs_dir env) (file_name config ''.aab'')
      in (\<lambda>d. case archiver_aab env of
            Some err \<Rightarrow> (Inl err, d)
          | None \<Rightarrow> (Inr aabPath, d\<lparr>nodes := (nodes d)(aabPath \<mapsto> File (bundle_archive env))\<rparr>)))"

text \<open>\<open>emit\<close> adds an event to those that the listeners of \<open>progress\<close> have received.\<close>

definition emit :: "string \<Rightarrow> int \<Rightarrow> string \<Rightarrow> (disk \<times> build_progress list, unit) action" where
  "emit st p msg = onProgress st p msg"

definition buildAPK_working_steps ::
  "builder_env \<Rightarrow> builder_config \<Rightarrow> (disk \<times> build_progress list, build_result) action" where
  "buildAPK_working_steps env config =
     (let buildId = nanoid env;
          projectDir = path_join (builds_dir env) buildId in
      and_then (emit ''init'' 5 ''Initializing Android project...'') (\<lambda>_.
      and_then (stage (mkdir (io_error env) projectDir)) (\<lambda>_.
      and_then (project_step env ''createProjectStructure'') (\<lambda>_.
      and_then (emit ''resources'' 20 ''Generating resources and manifest...'') (\<lambda>_.
      and_then (project_step env ''generateManifest'') (\<lambda>_.
      and_then (project_step env ''generateResources'') (\<lambda>_.
      and_then (project_step env ''copyWebAssets'') (\<lambda>_.
      and_then (emit ''compile'' 40 ''Compiling Java sources...'') (\<lambda>_.
      and_then (project_step env ''compileJavaSources'') (\<lambda>_.
      and_then (emit ''dex'' 60 ''Creating DEX file...'') (\<lambda>_.
      and_then (project_step env ''createDexFile'') (\<lambda>_.
      and_then (emit ''package'' 80 ''Packaging APK...'') (\<lambda>_.
      and_then (stage (packageAPK env projectDir config)) (\<lambda>apkPath.
      and_then (emit ''sign'' 90 ''Signing APK...'') (\<lambda>_.
      and_then (stage (signAPK_working env apkPath config)) (\<lambda>signedApkPath.
      and_then (emit ''bundle'' 95 ''Creating App Bundle...'') (\<lambda>_.
      and_then (stage (createAAB_working env projectDir config)) (\<lambda>aabPath.
      and_then (emit ''complete'' 100 ''Build completed successfully!'') (\<lambda>_.
      ok \<lparr>r_success = True, r_apkPath = Some signedApkPath, r_aabPath = Some aabPath,
          r_keystorePath = None, r_error = None, r_buildId = buildId,
          r_progress = None\<rparr>)))))))))))))))))))"

definition buildAPK_working ::
  "builder_env \<Rightarrow> builder_config \<Rightarrow> disk \<Rightarrow> build_result \<times> disk \<times> build_progress list" where
  "buildAPK_working env config d =
     (case buildAPK_working_steps env config (d, []) of
        (Inr result, s) \<Rightarrow> (result, s)
      | (Inl error, s) \<Rightarrow>
          (case emit ''error'' 0 (''Build failed: '' @ error) s of (_, s') \<Rightarrow>
           (\<lparr>r_success = False, r_apkPath = None, r_aabPath = None, r_keystorePath = None,
             r_error = Some error, r_buildId = nanoid env, r_progress = None\<rparr>, s')))"

section \<open>The build route (routes.ts)\<close>

text \<open>
  \<open>req.body.signingConfig || {}\<close>: the fields that the route reads from it, taken as
  strings and a number when the client sends them.
\<close>

record signing_request =
  rs_keystorePassword :: "string jsval"
  rs_keyAlias :: "string jsval"
  rs_developerName :: "string jsval"
  rs_organizationName :: "string jsval"
  rs_city :: "string jsval"
  rs_state :: "string jsval"
  rs_country :: "string jsval"
  rs_keystoreValidity :: "int jsval"

definition buildConfig :: "project \<Rightarrow> (string \<times> string) list \<Rightarrow> signing_request \<Rightarrow> build_config" where
  "buildConfig project fl requestSigningConfig =
     \<lparr>appName = or_string (Val (p_appName project)) ''My App'',
      packageName = or_string (Val (p_packageName project)) ''com.example.myapp'',
      versionCode = or_int (Val (p_versionCode project)) 1,
      versionName = or_string (p_versionName project) ''1.0'',
      websiteUrl = p_websiteUrl project,
      files = fl,
      keystoreValidity = Val (or_int (rs_keystoreValidity requestSigningConfig) 10000),
      keystorePassword = Val (or_string (rs_keystorePassword requestSigningConfig) ''android123''),
      keyAlias = Val (or_string (rs_keyAlias requestSigningConfig) ''app-key''),
      developerName = Val (or_string (rs_developerName requestSigningConfig) ''Developer''),
      organizationName = Val (or_string (rs_organizationName requestSigningConfig) ''Organization''),
      city = Val (or_string (rs_city requestSigningConfig) ''City''),
      state = Val (or_string (rs_state requestSigningConfig) ''State''),
      country = Val (or_string (rs_country requestSigningConfig) ''US'')\<rparr>"

definition getProject :: "mem_storage \<Rightarrow> int option \<Rightarrow> project option" where
  "getProject st i = (case i of None \<Rightarrow> None | Some k \<Rightarrow> projects st k)"

text \<open>
  The values of the map of files in the order of insertion, which is the order of the
  identifiers, filtered by the project. NaN is equal to no number.
\<close>

definition getProjectFiles :: "mem_storage \<Rightarrow> int option \<Rightarrow> project_file list" where
  "getProjectFiles st projectId =
     concat (map (\<lambda>i. case projectFiles st i of
                         None \<Rightarrow> []
                       | Some f \<Rightarrow> (if projectId \<noteq> None \<and> f_projectId f = projectId then [f] else []))
                 [1 .. fileIdCounter st - 1])"

text \<open>\<open>projectFiles.map\<close> with \<open>fs.readFileSync\<close>: the first file that cannot be read throws.\<close>

fun read_files :: "build_env \<Rightarrow> project_file list \<Rightarrow> string + (string \<times> string) list" where
  "read_files env [] = Inr []"
| "read_files env (f # fs) =
     (case read_upload env (f_filePath f) of
        Inl e \<Rightarrow> Inl e
      | Inr c \<Rightarrow> (case read_files env fs of Inl e \<Rightarrow> Inl e | Inr rest \<Rightarrow> Inr ((f_fileName f, c) # rest)))"

definition path_val :: "path option \<Rightarrow> string jsval" where
  "path_val p = (case p of None \<Rightarrow> Undefined | Some q \<Rightarrow> Val (render_path q))"

definition progress_update :: "build_progress \<Rightarrow> build_updates" where
  "progress_update p = no_updates\<lparr>u_progress := Some (Val (progress p)),
     u_buildStep := Some (Val (step p)), u_buildMessage := Some (Val (message p))\<rparr>"

definition success_update :: "build_result \<Rightarrow> build_updates" where
  "success_update buildResult = no_updates\<lparr>u_status := Some (Val ''success''),
     u_outputPath := Some (path_val (r_apkPath buildResult)),
     u_aabPath := Some (path_val (r_aabPath buildResult)),
     u_keystorePath := Some (path_val (r_keystorePath buildResult)),
     u_progress := Some (Val 100), u_buildStep := Some (Val ''Complete''),
     u_buildMessage := Some (Val ''Build completed successfully!'')\<rparr>"

definition failure_update :: "build_result \<Rightarrow> build_updates" where
  "failure_update buildResult =
     (let msg = (case r_error buildResult of None \<Rightarrow> ''Build failed''
                 | Some e \<Rightarrow> (if e = '''' then ''Build failed'' else e))
      in no_updates\<lparr>u_status := Some (Val ''failed''), u_errorMessage := Some (Val msg),
           u_progress := Some (Val 0), u_buildStep := Some (Val ''Failed''),
           u_buildMessage := Some (Val msg)\<rparr>)"

definition crash_update :: "string \<Rightarrow> build_updates" where
  "crash_update e = no_updates\<lparr>u_status := Some (Val ''failed''), u_errorMessage := Some (Val e)\<rparr>"

text \<open>
  The job keeps a log beside the store: every call of \<open>storage.updateBuild\<close> that the job
  makes adds the update it passes.
\<close>

definition record_update ::
  "time \<Rightarrow> int \<Rightarrow> build_updates \<Rightarrow> (mem_storage \<times> build_updates list, build) action" where
  "record_update now i u s =
     (case updateBuild now i u (fst s) of (r, st') \<Rightarrow> (r, (st', snd s @ [u])))"

definition count_success :: "mem_storage \<Rightarrow> mem_storage" where
  "count_success st =
     st\<lparr>buildStats := (buildStats st)\<lparr>successfulBuilds := successfulBuilds (buildStats st) + 1\<rparr>\<rparr>"

text \<open>
  The background job of \<open>POST /api/projects/:id/builds\<close> for the build \<open>buildId\<close>, from
  the construction of the builder on. The callback of \<open>buildAPK\<close> records one update per
  progress report; its promise is dropped.
\<close>

definition build_job ::
  "build_env \<Rightarrow> time \<Rightarrow> int \<Rightarrow> int option \<Rightarrow> signing_request \<Rightarrow> mem_storage \<Rightarrow> disk
     \<Rightarrow> (mem_storage \<times> build_updates list) \<times> disk" where
  "build_job env now buildId projectId requestSigningConfig st d =
     (let d1 = new_build_system env d;
          prepared =
            (case getProject st projectId of
               None \<Rightarrow> Inl ''Project not found''
             | Some project \<Rightarrow>
                 (case read_files env (getProjectFiles st projectId) of
                    Inl e \<Rightarrow> Inl e
                  | Inr fl \<Rightarrow> Inr (buildConfig project fl requestSigningConfig)))
      in case prepared of
           Inl e \<Rightarrow> (snd (record_update now buildId (crash_update e) (st, [])), d1)
         | Inr config \<Rightarrow>
             (case buildAPK env config d1 of
                (buildResult, d2, reports) \<Rightarrow>
                  (let s1 = foldl (\<lambda>s p. snd (record_update now buildId (progress_update p) s))
                              (st, []) reports;
                       final = (if r_success buildResult then success_update buildResult
                                else failure_update buildResult)
                   in case record_update now buildId final s1 of
                        (Inr _, s2) \<Rightarrow>
                          ((if r_success buildResult then (count_success (fst s2), snd s2) else s2), d2)
                      | (Inl e, s2) \<Rightarrow> (snd (record_update now buildId (crash_update e) s2), d2))))"

text \<open>The percentages that a log records, in order.\<close>

definition recorded_progress :: "build_updates list \<Rightarrow> int list" where
  "recorded_progress log =
     concat (map (\<lambda>u. case u_progress u of Some (Val p) \<Rightarrow> [p] | _ \<Rightarrow> []) log)"

section \<open>Notions for the proofs\<close>

text \<open>The postcondition \<open>Q\<close> holds of the outcome and the state after the action.\<close>

definition after :: "('s, 'a) action \<Rightarrow> 's \<Rightarrow> (string + 'a \<Rightarrow> 's \<Rightarrow> bool) \<Rightarrow> bool" where
  "after m s Q = (case m s of (r, s') \<Rightarrow> Q r s')"

text \<open>A run in which no call of the file system fails.\<close>

definition quiet :: "(nat \<Rightarrow> string option) \<Rightarrow> bool" where
  "quiet io = (\<forall>n. io n = None)"

text \<open>
  Two relations between the disk before and after: every file is still a file; and outside
  the paths \<open>W\<close> nothing changed but that a missing directory may have been made.
\<close>

definition files_kept :: "disk \<Rightarrow> disk \<Rightarrow> bool" where
  "files_kept d d' = (\<forall>p c. nodes d p = Some (File c) \<longrightarrow> (\<exists>c'. nodes d' p = Some (File c')))"

definition only_writes :: "path set \<Rightarrow> disk \<Rightarrow> disk \<Rightarrow> bool" where
  "only_writes W d d' =
     (\<forall>p. p \<notin> W \<longrightarrow> nodes d' p = nodes d p \<or> (nodes d p = None \<and> nodes d' p = Some Dir))"

definition keeps :: "('s \<Rightarrow> 's \<Rightarrow> bool) \<Rightarrow> ('s, 'a) action \<Rightarrow> bool" where
  "keeps K m = (\<forall>s. after m s (\<lambda>r s'. K s s'))"

text \<open>A name that \<open>path.join\<close> appends as one segment.\<close>

definition plain :: "string \<Rightarrow> bool" where
  "plain s = (CHR ''/'' \<notin> set s \<and> s \<noteq> '''' \<and> s \<noteq> ''.'' \<and> s \<noteq> ''..'')"

text \<open>The alphabet from which \<open>nanoid\<close> draws the 21 characters of an identifier.\<close>

definition urlAlphabet :: string where
  "urlAlphabet = ''useandom-26T198340PX75pxJACKVERYMINDBUSHWOLF_GQZbfghjklqvwyzrict''"

definition is_nanoid :: "string \<Rightarrow> bool" where
  "is_nanoid s = (length s = 21 \<and> set s \<subseteq> set urlAlphabet)"

text \<open>An action that throws in every state.\<close>

definition fails :: "('s, 'a) action \<Rightarrow> bool" where
  "fails m = (\<forall>s. after m s (\<lambda>r s'. isl r))"

text \<open>The percentages of the progress reports of \<open>buildAPK\<close>, in the order of the source.\<close>

definition anchors :: "int list" where
  "anchors = [5, 15, 30, 45, 60, 75, 85, 95, 100]"

text \<open>
  An action of \<open>buildAPK\<close> that starts after the first \<open>k\<close> reports and makes the reports
  that follow, in order, all of them exactly when it does not throw; and an action whose every
  returned value has a property.
\<close>

definition reports_from :: "nat \<Rightarrow> (disk \<times> build_progress list, 'a) action \<Rightarrow> bool" where
  "reports_from k m =
     (\<forall>d evs. map progress evs = take k anchors \<longrightarrow>
        after m (d, evs) (\<lambda>r s'. prefix (map progress (snd s')) anchors
                                \<and> (isl r \<longleftrightarrow> map progress (snd s') \<noteq> anchors)))"

definition returns_only :: "('a \<Rightarrow> bool) \<Rightarrow> ('s, 'a) action \<Rightarrow> bool" where
  "returns_only P m = (\<forall>s. after m s (\<lambda>r s'. \<forall>a. r = Inr a \<longrightarrow> P a))"

text \<open>An action that returns in every state.\<close>

definition succeeds :: "('s, 'a) action \<Rightarrow> bool" where
  "succeeds m = (\<forall>s. after m s (\<lambda>r s'. \<not> isl r))"

definition is_file :: "disk \<Rightarrow> path \<Rightarrow> bool" where
  "is_file d p = (case nodes d p of Some (File c) \<Rightarrow> True | _ \<Rightarrow> False)"

text \<open>The entries of the archive at a path of the disk, none when there is no archive.\<close>

definition package_at :: "disk \<Rightarrow> path \<Rightarrow> entries" where
  "package_at d p = (case nodes d p of Some (File (Archive a)) \<Rightarrow> a | _ \<Rightarrow> Map.empty)"





section \<open>Sample values\<close>

definition sample_build :: build where
  "sample_build = \<lparr>b_id = 1, b_projectId = Val 4, b_status = Val ''pending'', b_buildType = Val ''apk'',
     b_outputPath = Null, b_aabPath = Null, b_keystorePath = Undefined, b_errorMessage = Null,
     b_progress = Val 30, b_buildStep = Val ''Generating keystore'', b_buildMessage = Undefined,
     b_startedAt = Val 100, b_completedAt = Null\<rparr>"

definition env0 :: build_env where
  "env0 = \<lparr>cwd = [''srv'', ''app''], nanoid = ''V1StGXR8_Z5jdHi6B-myT'', io_error = (\<lambda>_. None),
     render = (\<lambda>t c. ''text''), convert = (\<lambda>_. Inl ''convert: not found''), chmod = None,
     keytool = Inr (Bytes ''keystore''), gradle_assemble = Inl ''gradle: not found'',
     archiver_apk = None, jarsigner = Inl ''jarsigner: unable to sign'',
     gradle_bundle = Inl ''gradle: not found'', archiver_aab = None,
     read_upload = (\<lambda>_. Inl ''ENOENT'')\<rparr>"

definition config0 :: build_config where
  "config0 = \<lparr>appName = ''Demo'', packageName = ''com.example.demo'', versionCode = 1, versionName = ''1.0'',
     websiteUrl = None, files = [(''index.html'', ''<h1>hi</h1>'')],
     keystoreValidity = Val 10000, keystorePassword = Val ''android123'', keyAlias = Val ''app-key'',
     developerName = Val ''Developer'', organizationName = Val ''Organization'', city = Val ''City'',
     state = Val ''State'', country = Val ''US''\<rparr>"

definition disk0 :: disk where "disk0 = \<lparr>nodes = Map.empty, tick = 0\<rparr>"

definition any_number :: "int \<Rightarrow> bool" where
  "any_number n = True"

definition body0 :: json where
  "body0 = JObj [(''name'', JStr ''Demo''), (''inputType'', JStr ''url''),
     (''websiteUrl'', JStr ''https://example.org''),
     (''packageName'', JStr ''Not A Package!''), (''appName'', JStr ''Demo'')]"

definition project0 :: project where
  "project0 = \<lparr>p_id = 1, p_name = ''Demo'', p_description = None, p_inputType = ''url'',
     p_websiteUrl = Some ''https://example.org'', p_packageName = ''Not A Package!'',
     p_appName = ''Demo'', p_version = ''1.0.0'', p_versionCode = 1, p_versionName = Undefined,
     p_minSdkVersion = Undefined, p_targetSdkVersion = Undefined, p_iconPath = None,
     p_logoPath = None, p_createdAt = 5, p_updatedAt = 5\<rparr>"

definition signing0 :: signing_request where
  "signing0 = \<lparr>rs_keystorePassword = Undefined, rs_keyAlias = Undefined,
     rs_developerName = Undefined, rs_organizationName = Undefined, rs_city = Undefined,
     rs_state = Undefined, rs_country = Undefined, rs_keystoreValidity = Undefined\<rparr>"

definition env_no_keytool :: build_env where
  "env_no_keytool = env0\<lparr>keytool := Inl ''keytool: command not found''\<rparr>"

definition store0 :: mem_storage where
  "store0 = new_storage\<lparr>projects := [1 \<mapsto> project0], builds := [1 \<mapsto> sample_build],
     projectIdCounter := 2, buildIdCounter := 2\<rparr>"


definition outputs0 :: path where
  "outputs0 = [''srv'', ''app'', ''build-outputs'']"

definition project_dir0 :: path where
  "project_dir0 = [''srv'', ''app'', ''android-builds'', ''V1StGXR8_Z5jdHi6B-myT'']"

definition env_unaligned :: builder_env where
  "env_unaligned = \<lparr>cwd = [''srv'', ''app''], nanoid = ''V1StGXR8_Z5jdHi6B-myT'', io_error = (\<lambda>_. None),
     render = (\<lambda>t c. ''text''), convert = (\<lambda>_. Inl ''convert: not found''), chmod = None,
     keytool = Inr (Bytes ''keystore''), gradle_assemble = Inl ''gradle: not found'',
     archiver_apk = None, jarsigner = Inr (Bytes ''signed package''),
     gradle_bundle = Inl ''gradle: bundleRelease failed'', archiver_aab = None,
     read_upload = (\<lambda>_. Inl ''ENOENT''), step_error = (\<lambda>_. None),
     zipalign = Inl ''zipalign: command not found'', package_archive = Bytes ''package'',
     bundle_archive = Bytes ''bundle''\<rparr>"

definition config_signed :: builder_config where
  "config_signed = \<lparr>c_appName = ''Demo'', c_packageName = ''com.example.demo'', c_versionCode = 1,
     c_versionName = ''1.0'', c_websiteUrl = None, c_files = Some [(''index.html'', ''<h1>hi</h1>'')],
     c_keystorePath = Val ''keys/release.jks'', c_keystorePassword = Val ''secret'',
     c_keyAlias = Val ''app-key'', c_keyPassword = Val ''secret''\<rparr>"

definition disk_keystore :: disk where
  "disk_keystore = \<lparr>nodes = [[''srv'', ''app'', ''keys'', ''release.jks''] \<mapsto> File (Bytes ''keystore'')],
     tick = 0\<rparr>"


definition body_number :: json where
  "body_number = JObj [(''name'', JStr ''Demo''), (''inputType'', JStr ''url''),
     (''websiteUrl'', JStr ''https://example.org''),
     (''packageName'', JNum 7), (''appName'', JStr ''Demo'')]"

section \<open>The upload filter decides by the extension\<close>

lemma filter_all_None: "filter_all fl = None \<longleftrightarrow> (\<forall>f \<in> set fl. fileFilter (originalname f) = Inr True)"
  by (induction fl) (auto simp: fileFilter_def Let_def split: sum.splits)

lemma filter_all_Some: "filter_all fl = Some e \<Longrightarrow> e = ''Invalid file type''"
  by (induction fl) (auto simp: fileFilter_def Let_def split: sum.splits if_splits)

lemma create_files_names:
  "create_files now pid fl st = (ups, st') \<Longrightarrow> map f_fileName ups = map originalname fl"
  by (induction fl arbitrary: st ups st')
     (auto simp: createProjectFile_def Let_def split: prod.splits)

text \<open>
  C10: the upload filter lets a file pass exactly when the extension of its name, put in lower
  case, is one of the eight allowed ones, and answers \<open>Invalid file type\<close> otherwise. One
  refused file ends the request before the handler runs: the store is as before, with no
  file record. When every file passes, the handler makes one record per file.
\<close>

theorem upload_filter_by_extension:
  "(fileFilter name = Inr True \<longleftrightarrow> toLowerCase (extname name) \<in>
       {''.html'', ''.css'', ''.js'', ''.png'', ''.jpg'', ''.jpeg'', ''.gif'', ''.svg''})
   \<and> (fileFilter name \<noteq> Inr True \<longrightarrow> fileFilter name = Inl ''Invalid file type'')
   \<and> ((\<exists>f \<in> set fl. fileFilter (originalname f) \<noteq> Inr True) \<longrightarrow>
         post_project_files now pid fl st = (MiddlewareError ''Invalid file type'', st))
   \<and> ((\<forall>f \<in> set fl. fileFilter (originalname f) = Inr True) \<and> fl \<noteq> [] \<longrightarrow>
         (\<exists>ups st'. post_project_files now pid fl st = (Created ups, st')
            \<and> map f_fileName ups = map originalname fl))"
proof (intro conjI impI)
  show "fileFilter name = Inr True \<longleftrightarrow> toLowerCase (extname name) \<in>
       {''.html'', ''.css'', ''.js'', ''.png'', ''.jpg'', ''.jpeg'', ''.gif'', ''.svg''}"
    by (simp add: fileFilter_def allowedTypes_def Let_def)
  show "fileFilter name = Inl ''Invalid file type''" if "fileFilter name \<noteq> Inr True"
    using that by (simp add: fileFilter_def Let_def split: if_splits)
  show "post_project_files now pid fl st = (MiddlewareError ''Invalid file type'', st)"
    if "\<exists>f \<in> set fl. fileFilter (originalname f) \<noteq> Inr True"
  proof -
    from that have "filter_all fl \<noteq> None" by (simp add: filter_all_None)
    then obtain e where e: "filter_all fl = Some e" by auto
    then have "e = ''Invalid file type''" by (rule filter_all_Some)
    with e show ?thesis by (simp add: post_project_files_def)
  qed
  show "\<exists>ups st'. post_project_files now pid fl st = (Created ups, st')
            \<and> map f_fileName ups = map originalname fl"
    if "(\<forall>f \<in> set fl. fileFilter (originalname f) = Inr True) \<and> fl \<noteq> []"
  proof -
    from that have n: "filter_all fl = None" by (simp add: filter_all_None)
    obtain ups st' where c: "create_files now pid fl st = (ups, st')" by (cases "create_files now pid fl st")
    from c have "map f_fileName ups = map originalname fl" by (rule create_files_names)
    with n c that show ?thesis by (simp add: post_project_files_def)
  qed
qed

theorem upload_filter_by_extension_witness:
  "fileFilter ''INDEX.HTML'' = Inr True
   \<and> toLowerCase (extname ''setup.exe'') \<notin>
       {''.html'', ''.css'', ''.js'', ''.png'', ''.jpg'', ''.jpeg'', ''.gif'', ''.svg''}
   \<and> post_project_files 7 (Some 1)
        [\<lparr>originalname = ''index.html'', tmp_path = ''uploads/a1'', file_size = 12\<rparr>,
         \<lparr>originalname = ''setup.exe'', tmp_path = ''uploads/a2'', file_size = 40\<rparr>] new_storage
       = (MiddlewareError ''Invalid file type'', new_storage)
   \<and> (\<exists>ups st'. post_project_files 7 (Some 1)
        [\<lparr>originalname = ''Logo.PNG'', tmp_path = ''uploads/a3'', file_size = 9\<rparr>] new_storage
       = (Created ups, st') \<and> map f_fileName ups = [''Logo.PNG''])"
proof -
  have a: "toLowerCase (extname ''INDEX.HTML'') \<in>
       {''.html'', ''.css'', ''.js'', ''.png'', ''.jpg'', ''.jpeg'', ''.gif'', ''.svg''}"
    by code_simp
  have b: "toLowerCase (extname ''setup.exe'') \<notin>
       {''.html'', ''.css'', ''.js'', ''.png'', ''.jpg'', ''.jpeg'', ''.gif'', ''.svg''}"
    by code_simp
  have c: "toLowerCase (extname ''Logo.PNG'') \<in>
       {''.html'', ''.css'', ''.js'', ''.png'', ''.jpg'', ''.jpeg'', ''.gif'', ''.svg''}"
    by code_simp
  note t1 = upload_filter_by_extension [of "''INDEX.HTML''" "[]" 0 None new_storage]
  note t2 = upload_filter_by_extension [of "''setup.exe''"
        "[\<lparr>originalname = ''index.html'', tmp_path = ''uploads/a1'', file_size = 12\<rparr>,
         \<lparr>originalname = ''setup.exe'', tmp_path = ''uploads/a2'', file_size = 40\<rparr>]" 7 "Some 1" new_storage]
  note t3 = upload_filter_by_extension [of "''Logo.PNG''"
        "[\<lparr>originalname = ''Logo.PNG'', tmp_path = ''uploads/a3'', file_size = 9\<rparr>]" 7 "Some 1" new_storage]
  from t1 a have 1: "fileFilter ''INDEX.HTML'' = Inr True" by blast
  from t2 b have nb: "fileFilter ''setup.exe'' \<noteq> Inr True" by blast
  from t2 nb have 3: "post_project_files 7 (Some 1)
        [\<lparr>originalname = ''index.html'', tmp_path = ''uploads/a1'', file_size = 12\<rparr>,
         \<lparr>originalname = ''setup.exe'', tmp_path = ''uploads/a2'', file_size = 40\<rparr>] new_storage
       = (MiddlewareError ''Invalid file type'', new_storage)" by simp
  from t3 c have lc: "fileFilter ''Logo.PNG'' = Inr True" by blast
  from t3 lc have 4: "\<exists>ups st'. post_project_files 7 (Some 1)
        [\<lparr>originalname = ''Logo.PNG'', tmp_path = ''uploads/a3'', file_size = 9\<rparr>] new_storage
       = (Created ups, st') \<and> map f_fileName ups = [''Logo.PNG'']" by simp
  from 1 b 3 4 show ?thesis by blast
qed

section \<open>The frame of updateBuild\<close>

text \<open>
  C9: \<open>updateBuild\<close> on an identifier without a build throws \<open>Build not found\<close> and leaves
  the store as it was. On a stored build it writes one build back under the same identifier:
  \<open>completedAt\<close> is the current time exactly when the update names the status \<open>success\<close>
  or \<open>failed\<close> and is the old value otherwise, a key of the update gives its field the
  update's value, and a field without key in the update, like \<open>id\<close> and \<open>startedAt\<close>,
  keeps its value.
\<close>

theorem updateBuild_frame:
  "(builds st i = None \<longrightarrow> updateBuild now i u st = (Inl ''Build not found'', st))
   \<and> (\<forall>b. builds st i = Some b \<longrightarrow>
        (\<exists>b'. updateBuild now i u st = (Inr b', st\<lparr>builds := (builds st)(i \<mapsto> b')\<rparr>)
          \<and> b_completedAt b' =
               (if u_status u = Some (Val ''success'') \<or> u_status u = Some (Val ''failed'')
                then Val now else b_completedAt b)
          \<and> b_id b' = b_id b \<and> b_startedAt b' = b_startedAt b
          \<and> b_projectId b' = (case u_projectId u of None \<Rightarrow> b_projectId b | Some v \<Rightarrow> v)
          \<and> b_status b' = (case u_status u of None \<Rightarrow> b_status b | Some v \<Rightarrow> v)
          \<and> b_buildType b' = (case u_buildType u of None \<Rightarrow> b_buildType b | Some v \<Rightarrow> v)
          \<and> b_outputPath b' = (case u_outputPath u of None \<Rightarrow> b_outputPath b | Some v \<Rightarrow> v)
          \<and> b_aabPath b' = (case u_aabPath u of None \<Rightarrow> b_aabPath b | Some v \<Rightarrow> v)
          \<and> b_keystorePath b' = (case u_keystorePath u of None \<Rightarrow> b_keystorePath b | Some v \<Rightarrow> v)
          \<and> b_errorMessage b' = (case u_errorMessage u of None \<Rightarrow> b_errorMessage b | Some v \<Rightarrow> v)
          \<and> b_progress b' = (case u_progress u of None \<Rightarrow> b_progress b | Some v \<Rightarrow> v)
          \<and> b_buildStep b' = (case u_buildStep u of None \<Rightarrow> b_buildStep b | Some v \<Rightarrow> v)
          \<and> b_buildMessage b' = (case u_buildMessage u of None \<Rightarrow> b_buildMessage b | Some v \<Rightarrow> v)))"
  by (simp add: updateBuild_def spread_build_def spread_def Let_def)

theorem updateBuild_frame_witness:
  "updateBuild 250 2 (no_updates\<lparr>u_status := Some (Val ''failed'')\<rparr>)
      (new_storage\<lparr>builds := [1 \<mapsto> sample_build]\<rparr>)
     = (Inl ''Build not found'', new_storage\<lparr>builds := [1 \<mapsto> sample_build]\<rparr>)
   \<and> (\<exists>b'. updateBuild 250 1 (no_updates\<lparr>u_status := Some (Val ''failed''), u_progress := Some (Val 0)\<rparr>)
          (new_storage\<lparr>builds := [1 \<mapsto> sample_build]\<rparr>)
        = (Inr b', new_storage\<lparr>builds := [1 \<mapsto> b']\<rparr>)
      \<and> b_completedAt b' = Val 250 \<and> b_status b' = Val ''failed'' \<and> b_progress b' = Val 0
      \<and> b_buildStep b' = Val ''Generating keystore'' \<and> b_startedAt b' = Val 100)
   \<and> (\<exists>b'. updateBuild 250 1 (no_updates\<lparr>u_progress := Some (Val 45)\<rparr>)
          (new_storage\<lparr>builds := [1 \<mapsto> sample_build]\<rparr>)
        = (Inr b', new_storage\<lparr>builds := [1 \<mapsto> b']\<rparr>)
      \<and> b_completedAt b' = Null \<and> b_status b' = Val ''pending'' \<and> b_progress b' = Val 45)"
proof -
  let ?st = "new_storage\<lparr>builds := [1 \<mapsto> sample_build]\<rparr>"
  have none: "builds ?st 2 = None" and some: "builds ?st 1 = Some sample_build"
    by simp_all
  note a = updateBuild_frame [of ?st 2 250 "no_updates\<lparr>u_status := Some (Val ''failed'')\<rparr>"]
  note b = updateBuild_frame [of ?st 1 250
     "no_updates\<lparr>u_status := Some (Val ''failed''), u_progress := Some (Val 0)\<rparr>"]
  note c = updateBuild_frame [of ?st 1 250 "no_updates\<lparr>u_progress := Some (Val 45)\<rparr>"]
  from a none have 1: "updateBuild 250 2 (no_updates\<lparr>u_status := Some (Val ''failed'')\<rparr>) ?st
     = (Inl ''Build not found'', ?st)" by blast
  from b some have 2: "\<exists>b'. updateBuild 250 1
         (no_updates\<lparr>u_status := Some (Val ''failed''), u_progress := Some (Val 0)\<rparr>) ?st
        = (Inr b', new_storage\<lparr>builds := [1 \<mapsto> b']\<rparr>)
      \<and> b_completedAt b' = Val 250 \<and> b_status b' = Val ''failed'' \<and> b_progress b' = Val 0
      \<and> b_buildStep b' = Val ''Generating keystore'' \<and> b_startedAt b' = Val 100"
    by (simp add: no_updates_def sample_build_def) blast
  from c some have 3: "\<exists>b'. updateBuild 250 1 (no_updates\<lparr>u_progress := Some (Val 45)\<rparr>) ?st
        = (Inr b', new_storage\<lparr>builds := [1 \<mapsto> b']\<rparr>)
      \<and> b_completedAt b' = Null \<and> b_status b' = Val ''pending'' \<and> b_progress b' = Val 45"
    by (simp add: no_updates_def sample_build_def) blast
  from 1 2 3 show ?thesis by blast
qed

section \<open>What the project route checks\<close>

lemma parse_packageName:
  "insertProjectSchema_parse num_ok body = Some pd \<Longrightarrow>
     \<exists>kvs. body = JObj kvs \<and> property kvs ''packageName'' = Some (JStr (ip_packageName pd))"
  by (auto simp: insertProjectSchema_parse_def required_string_def
           split: json.splits option.splits Option.bind_splits)

lemma parse_versionName:
  "insertProjectSchema_parse num_ok (JObj kvs) = Some pd \<Longrightarrow> property kvs ''versionName'' = None \<Longrightarrow>
     ip_versionName pd = Undefined"
  by (auto simp: insertProjectSchema_parse_def optional_string_def
           split: json.splits option.splits Option.bind_splits)

lemma post_projects_Created:
  "post_projects num_ok now body st = (Created p, st') \<Longrightarrow>
     \<exists>pd. insertProjectSchema_parse num_ok body = Some pd \<and> createProject now pd st = (p, st')"
  by (auto simp: post_projects_def split: option.splits prod.splits)

lemma body0_created:
  "post_projects any_number 5 body0 new_storage
     = (Created project0, new_storage\<lparr>projects := [1 \<mapsto> project0], projectIdCounter := 2\<rparr>)"
  by (simp add: post_projects_def insertProjectSchema_parse_def body0_def property_def
        required_string_def optional_string_def nullable_string_def optional_number_def
        createProject_def new_storage_def project0_def or_null_def or_string_def or_int_def
        any_number_def Let_def)

text \<open>
  C5, as stated, fails: a request whose package identifier is \<open>Not A Package!\<close>, which is no
  reverse-domain name, passes the schema, and the project is created and stored with it.
\<close>

theorem package_pattern_counterexample:
  "\<not> reverse_domain ''Not A Package!''
   \<and> fst (post_projects any_number 5 body0 new_storage) = Created project0
   \<and> projects (snd (post_projects any_number 5 body0 new_storage)) 1 = Some project0
   \<and> p_packageName project0 = ''Not A Package!''"
proof -
  have "\<not> reverse_domain ''Not A Package!''"
    by code_simp
  moreover have "p_packageName project0 = ''Not A Package!''"
    by (simp add: project0_def)
  ultimately show ?thesis
    by (simp add: body0_created)
qed

lemma parse_any_packageName:
  assumes "property kvs ''packageName'' = Some (JStr s)"
    and "required_string (property kvs ''name'') \<noteq> None"
    and "required_string (property kvs ''inputType'') \<noteq> None"
    and "required_string (property kvs ''appName'') \<noteq> None"
    and "nullable_string (property kvs ''description'') \<noteq> None"
    and "nullable_string (property kvs ''websiteUrl'') \<noteq> None"
    and "optional_string (property kvs ''version'') \<noteq> None"
    and "optional_number num_ok (property kvs ''versionCode'') \<noteq> None"
    and "optional_string (property kvs ''versionName'') \<noteq> None"
    and "optional_number num_ok (property kvs ''minSdkVersion'') \<noteq> None"
    and "optional_number num_ok (property kvs ''targetSdkVersion'') \<noteq> None"
    and "nullable_string (property kvs ''iconPath'') \<noteq> None"
    and "nullable_string (property kvs ''logoPath'') \<noteq> None"
  shows "\<exists>pd. insertProjectSchema_parse num_ok (JObj kvs) = Some pd \<and> ip_packageName pd = s"
  using assms
  by (auto simp: insertProjectSchema_parse_def required_string_def)

text \<open>
  C5, amended: the schema asks of the package identifier only that it is a string. A request
  whose \<open>packageName\<close> is missing or not a string gets the answer 400
  \<open>Invalid project data\<close>, which names no field, and the store stays as it was. A project
  that the route creates is stored under its identifier with the very string of the request as
  package identifier. And the form of the string plays no part: whenever \<open>packageName\<close> is
  a string and every other field passes its own check, the project is created with that
  string.
\<close>

theorem package_name_is_any_string:
  "((\<forall>s. property kvs ''packageName'' \<noteq> Some (JStr s)) \<longrightarrow>
       post_projects num_ok now (JObj kvs) st = (BadRequest ''Invalid project data'', st))
   \<and> (post_projects num_ok now (JObj kvs) st = (Created p, st') \<longrightarrow>
        property kvs ''packageName'' = Some (JStr (p_packageName p))
        \<and> projects st' (p_id p) = Some p)
   \<and> (property kvs ''packageName'' = Some (JStr s)
        \<and> required_string (property kvs ''name'') \<noteq> None
        \<and> required_string (property kvs ''inputType'') \<noteq> None
        \<and> required_string (property kvs ''appName'') \<noteq> None
        \<and> nullable_string (property kvs ''description'') \<noteq> None
        \<and> nullable_string (property kvs ''websiteUrl'') \<noteq> None
        \<and> optional_string (property kvs ''version'') \<noteq> None
        \<and> optional_number num_ok (property kvs ''versionCode'') \<noteq> None
        \<and> optional_string (property kvs ''versionName'') \<noteq> None
        \<and> optional_number num_ok (property kvs ''minSdkVersion'') \<noteq> None
        \<and> optional_number num_ok (property kvs ''targetSdkVersion'') \<noteq> None
        \<and> nullable_string (property kvs ''iconPath'') \<noteq> None
        \<and> nullable_string (property kvs ''logoPath'') \<noteq> None \<longrightarrow>
        (\<exists>q. fst (post_projects num_ok now (JObj kvs) st) = Created q \<and> p_packageName q = s
            \<and> projects (snd (post_projects num_ok now (JObj kvs) st)) (p_id q) = Some q))"
proof -
  have 1: "post_projects num_ok now (JObj kvs) st = (BadRequest ''Invalid project data'', st)"
    if a: "\<forall>s. property kvs ''packageName'' \<noteq> Some (JStr s)"
  proof -
    have "insertProjectSchema_parse num_ok (JObj kvs) = None"
    proof (cases "insertProjectSchema_parse num_ok (JObj kvs)")
      case (Some pd)
      from parse_packageName [OF Some] a show ?thesis by auto
    qed simp
    then show ?thesis
      by (simp add: post_projects_def)
  qed
  have 2: "property kvs ''packageName'' = Some (JStr (p_packageName p))
        \<and> projects st' (p_id p) = Some p"
    if c: "post_projects num_ok now (JObj kvs) st = (Created p, st')"
  proof -
    from post_projects_Created [OF c] obtain pd where
      pd: "insertProjectSchema_parse num_ok (JObj kvs) = Some pd"
      and cp: "createProject now pd st = (p, st')"
      by blast
    from cp have pn: "p_packageName p = ip_packageName pd" and stored: "projects st' (p_id p) = Some p"
      by (auto simp: createProject_def Let_def)
    from parse_packageName [OF pd] pn stored show ?thesis
      by simp
  qed
  have 3: "\<exists>q. fst (post_projects num_ok now (JObj kvs) st) = Created q \<and> p_packageName q = s
            \<and> projects (snd (post_projects num_ok now (JObj kvs) st)) (p_id q) = Some q"
    if h: "property kvs ''packageName'' = Some (JStr s)
        \<and> required_string (property kvs ''name'') \<noteq> None
        \<and> required_string (property kvs ''inputType'') \<noteq> None
        \<and> required_string (property kvs ''appName'') \<noteq> None
        \<and> nullable_string (property kvs ''description'') \<noteq> None
        \<and> nullable_string (property kvs ''websiteUrl'') \<noteq> None
        \<and> optional_string (property kvs ''version'') \<noteq> None
        \<and> optional_number num_ok (property kvs ''versionCode'') \<noteq> None
        \<and> optional_string (property kvs ''versionName'') \<noteq> None
        \<and> optional_number num_ok (property kvs ''minSdkVersion'') \<noteq> None
        \<and> optional_number num_ok (property kvs ''targetSdkVersion'') \<noteq> None
        \<and> nullable_string (property kvs ''iconPath'') \<noteq> None
        \<and> nullable_string (property kvs ''logoPath'') \<noteq> None"
  proof -
    from h have "\<exists>pd. insertProjectSchema_parse num_ok (JObj kvs) = Some pd \<and> ip_packageName pd = s"
      by (intro parse_any_packageName) simp_all
    then obtain pd where pd: "insertProjectSchema_parse num_ok (JObj kvs) = Some pd"
      and s: "ip_packageName pd = s" by blast
    from pd s show ?thesis
      by (simp add: post_projects_def createProject_def Let_def)
  qed
  from 1 2 3 show ?thesis by blast
qed

theorem package_name_is_any_string_witness:
  "body_number = JObj [(''name'', JStr ''Demo''), (''inputType'', JStr ''url''),
     (''websiteUrl'', JStr ''https://example.org''),
     (''packageName'', JNum 7), (''appName'', JStr ''Demo'')]
   \<and> post_projects any_number 5 body_number new_storage
     = (BadRequest ''Invalid project data'', new_storage)
   \<and> body0 = JObj [(''name'', JStr ''Demo''), (''inputType'', JStr ''url''),
     (''websiteUrl'', JStr ''https://example.org''),
     (''packageName'', JStr ''Not A Package!''), (''appName'', JStr ''Demo'')]
   \<and> fst (post_projects any_number 5 body0 new_storage) = Created project0
   \<and> p_packageName project0 = ''Not A Package!''
   \<and> projects (snd (post_projects any_number 5 body0 new_storage)) (p_id project0) = Some project0"
proof -
  let ?refused = "[(''name'', JStr ''Demo''), (''inputType'', JStr ''url''),
     (''websiteUrl'', JStr ''https://example.org''),
     (''packageName'', JNum 7), (''appName'', JStr ''Demo'')]"
  let ?kvs = "[(''name'', JStr ''Demo''), (''inputType'', JStr ''url''),
     (''websiteUrl'', JStr ''https://example.org''),
     (''packageName'', JStr ''Not A Package!''), (''appName'', JStr ''Demo'')]"
  note a = package_name_is_any_string [of ?refused any_number 5 new_storage]
  note b = package_name_is_any_string [of ?kvs any_number 5 new_storage project0
        "new_storage\<lparr>projects := [1 \<mapsto> project0], projectIdCounter := 2\<rparr>" "''Not A Package!''"]
  have ha: "\<forall>s. property ?refused ''packageName'' \<noteq> Some (JStr s)"
    by (simp add: property_def)
  from a ha have 1: "post_projects any_number 5 (JObj ?refused) new_storage
     = (BadRequest ''Invalid project data'', new_storage)"
    by blast
  have hb: "property ?kvs ''packageName'' = Some (JStr ''Not A Package!'')
        \<and> required_string (property ?kvs ''name'') \<noteq> None
        \<and> required_string (property ?kvs ''inputType'') \<noteq> None
        \<and> required_string (property ?kvs ''appName'') \<noteq> None
        \<and> nullable_string (property ?kvs ''description'') \<noteq> None
        \<and> nullable_string (property ?kvs ''websiteUrl'') \<noteq> None
        \<and> optional_string (property ?kvs ''version'') \<noteq> None
        \<and> optional_number any_number (property ?kvs ''versionCode'') \<noteq> None
        \<and> optional_string (property ?kvs ''versionName'') \<noteq> None
        \<and> optional_number any_number (property ?kvs ''minSdkVersion'') \<noteq> None
        \<and> optional_number any_number (property ?kvs ''targetSdkVersion'') \<noteq> None
        \<and> nullable_string (property ?kvs ''iconPath'') \<noteq> None
        \<and> nullable_string (property ?kvs ''logoPath'') \<noteq> None"
    by (simp add: property_def required_string_def nullable_string_def optional_string_def
        optional_number_def)
  from b hb have 2: "\<exists>q. fst (post_projects any_number 5 (JObj ?kvs) new_storage) = Created q
        \<and> p_packageName q = ''Not A Package!''
        \<and> projects (snd (post_projects any_number 5 (JObj ?kvs) new_storage)) (p_id q) = Some q"
    by blast
  have c: "post_projects any_number 5 (JObj ?kvs) new_storage
     = (Created project0, new_storage\<lparr>projects := [1 \<mapsto> project0], projectIdCounter := 2\<rparr>)"
    using body0_created by (simp add: body0_def)
  from 1 2 c show ?thesis
    by (auto simp: body0_def body_number_def)
qed

section \<open>The default of the version name\<close>

text \<open>
  C8, as stated, fails: the project made from a request without \<open>versionName\<close> has no version
  name, and the build configuration of the route gives it \<open>1.0\<close>, not \<open>1.0.0\<close>.
\<close>

theorem version_name_default_counterexample:
  "property [(''name'', JStr ''Demo''), (''inputType'', JStr ''url''),
        (''websiteUrl'', JStr ''https://example.org''),
        (''packageName'', JStr ''Not A Package!''), (''appName'', JStr ''Demo'')] ''versionName'' = None
   \<and> fst (post_projects any_number 5 body0 new_storage) = Created project0
   \<and> versionName (buildConfig project0 [] signing0) = ''1.0''
   \<and> versionName (buildConfig project0 [] signing0) \<noteq> ''1.0.0''"
  by (simp add: body0_created property_def buildConfig_def project0_def or_string_def)

text \<open>
  C8, amended: for a request without \<open>versionName\<close> the created project carries none, and the
  build configuration that the route makes from a project without version name (undefined,
  null or empty) carries the version name \<open>1.0\<close>.
\<close>

theorem version_name_default:
  "(property kvs ''versionName'' = None \<and> post_projects num_ok now (JObj kvs) st = (Created p, st')
      \<longrightarrow> p_versionName p = Undefined)
   \<and> (p_versionName q \<in> {Undefined, Null, Val ''''} \<longrightarrow> versionName (buildConfig q fl rs) = ''1.0'')"
proof (intro conjI impI)
  assume a: "property kvs ''versionName'' = None \<and> post_projects num_ok now (JObj kvs) st = (Created p, st')"
  then obtain pd where pd: "insertProjectSchema_parse num_ok (JObj kvs) = Some pd"
    and cp: "createProject now pd st = (p, st')"
    using post_projects_Created by blast
  from cp have "p_versionName p = ip_versionName pd"
    by (auto simp: createProject_def Let_def)
  with parse_versionName [OF pd] a show "p_versionName p = Undefined" by simp
next
  assume "p_versionName q \<in> {Undefined, Null, Val ''''}"
  then show "versionName (buildConfig q fl rs) = ''1.0''"
    by (auto simp: buildConfig_def or_string_def)
qed

theorem version_name_default_witness:
  "p_versionName project0 = Undefined \<and> versionName (buildConfig project0 [] signing0) = ''1.0''"
proof -
  have k: "property [(''name'', JStr ''Demo''), (''inputType'', JStr ''url''),
        (''websiteUrl'', JStr ''https://example.org''),
        (''packageName'', JStr ''Not A Package!''), (''appName'', JStr ''Demo'')] ''versionName'' = None"
    by (simp add: property_def)
  have c: "post_projects any_number 5 (JObj [(''name'', JStr ''Demo''), (''inputType'', JStr ''url''),
        (''websiteUrl'', JStr ''https://example.org''),
        (''packageName'', JStr ''Not A Package!''), (''appName'', JStr ''Demo'')]) new_storage
     = (Created project0, new_storage\<lparr>projects := [1 \<mapsto> project0], projectIdCounter := 2\<rparr>)"
    using body0_created by (simp add: body0_def)
  note t = version_name_default [of
     "[(''name'', JStr ''Demo''), (''inputType'', JStr ''url''),
        (''websiteUrl'', JStr ''https://example.org''),
        (''packageName'', JStr ''Not A Package!''), (''appName'', JStr ''Demo'')]"
     any_number 5 new_storage project0
     "new_storage\<lparr>projects := [1 \<mapsto> project0], projectIdCounter := 2\<rparr>" project0 "[]" signing0]
  from t k c have 1: "p_versionName project0 = Undefined" by blast
  from t 1 have "versionName (buildConfig project0 [] signing0) = ''1.0''" by simp
  with 1 show ?thesis by simp
qed

section \<open>Rules for actions\<close>

lemma afterI: "m s = (r, s') \<Longrightarrow> Q r s' \<Longrightarrow> after m s Q"
  by (simp add: after_def)

lemma afterD: "after m s Q \<Longrightarrow> m s = (r, s') \<Longrightarrow> Q r s'"
  by (simp add: after_def)

lemma after_all: "(\<And>r s'. Q r s') \<Longrightarrow> after m s Q"
  by (simp add: after_def split: prod.split)


lemma after_conj: "after m s P \<Longrightarrow> after m s Q \<Longrightarrow> after m s (\<lambda>r s'. P r s' \<and> Q r s')"
  by (auto simp: after_def split: prod.splits)

lemma after_ok: "after (ok a) s Q = Q (Inr a) s"
  by (simp add: after_def ok_def)

lemma after_throw: "after (throw e) s Q = Q (Inl e) s"
  by (simp add: after_def throw_def)

lemma after_and_then:
  "after (and_then m f) s Q =
     after m s (\<lambda>r s'. case r of Inl e \<Rightarrow> Q (Inl e) s' | Inr a \<Rightarrow> after (f a) s' Q)"
  by (simp add: after_def and_then_def split: prod.split sum.split)

lemma after_try_catch:
  "after (try_catch m h) s Q =
     after m s (\<lambda>r s'. case r of Inl e \<Rightarrow> after (h e) s' Q | Inr a \<Rightarrow> Q (Inr a) s')"
  by (simp add: after_def try_catch_def split: prod.split sum.split)

lemma after_run_tool:
  "after (run_tool t) s Q = (case t of Inl e \<Rightarrow> Q (Inl e) s | Inr a \<Rightarrow> Q (Inr a) s)"
  by (simp add: run_tool_def after_ok after_throw split: sum.split)

lemma after_stage: "after (stage m) s Q = after m (fst s) (\<lambda>r d'. Q r (d', snd s))"
  by (simp add: after_def stage_def split: prod.split)

lemma after_onProgress:
  "after (onProgress st p msg) s Q
     = Q (Inr ()) (fst s, snd s @ [\<lparr>step = st, progress = p, message = msg\<rparr>])"
  by (simp add: after_def onProgress_def)

lemmas after_simps = after_ok after_throw after_and_then after_try_catch after_run_tool
  after_stage after_onProgress

lemma fails_Inl:
  assumes "fails m" and "m s = (r, s')"
  shows "\<exists>e. r = Inl e"
proof -
  from assms(1) have "after m s (\<lambda>r s'. isl r)" by (simp add: fails_def)
  with assms(2) have "isl r" by (simp add: after_def)
  then show ?thesis by (cases r) simp_all
qed

lemma fails_now: 
  assumes "fails m"
  shows "fails (and_then m f)"
  unfolding fails_def
proof
  fix s
  obtain r s' where ms: "m s = (r, s')" by (cases "m s")
  from fails_Inl [OF assms ms] obtain e where "r = Inl e" ..
  with ms show "after (and_then m f) s (\<lambda>r s'. isl r)"
    by (simp add: after_def and_then_def)
qed

lemma fails_later:
  assumes "\<And>a. fails (f a)"
  shows "fails (and_then m f)"
  unfolding fails_def
proof
  fix s
  obtain r s' where ms: "m s = (r, s')" by (cases "m s")
  show "after (and_then m f) s (\<lambda>r s'. isl r)"
  proof (cases r)
    case (Inl e)
    with ms show ?thesis by (simp add: after_def and_then_def)
  next
    case (Inr a)
    obtain r2 s2 where fs: "f a s' = (r2, s2)" by (cases "f a s'")
    from fails_Inl [OF assms [of a] fs] obtain e where "r2 = Inl e" ..
    with ms Inr fs show ?thesis by (simp add: after_def and_then_def)
  qed
qed

lemma fails_stage:
  assumes "fails m"
  shows "fails (stage m)"
  unfolding fails_def
proof
  fix s :: "disk \<times> build_progress list"
  obtain r d' where md: "m (fst s) = (r, d')" by (cases "m (fst s)")
  from fails_Inl [OF assms md] obtain e where "r = Inl e" ..
  with md show "after (stage m) s (\<lambda>r s'. isl r)"
    by (simp add: after_def stage_def)
qed

lemma fails_run_tool: "fails (run_tool (Inl e))"
  by (simp add: fails_def after_run_tool)

lemma failsD:
  assumes "fails m"
  shows "\<exists>e s'. m s = (Inl e, s')"
proof -
  obtain r s' where ms: "m s = (r, s')" by (cases "m s")
  from fails_Inl [OF assms ms] obtain e where "r = Inl e" ..
  with ms show ?thesis by simp
qed

section \<open>The reports of buildAPK\<close>

lemma returns_only_ok: "P a \<Longrightarrow> returns_only P (ok a)"
  by (simp add: returns_only_def after_ok)

lemma returns_only_and_then:
  assumes "\<And>a. returns_only P (f a)"
  shows "returns_only P (and_then m f)"
  unfolding returns_only_def
proof
  fix s
  obtain r s' where ms: "m s = (r, s')" by (cases "m s")
  show "after (and_then m f) s (\<lambda>r s'. \<forall>a. r = Inr a \<longrightarrow> P a)"
  proof (cases r)
    case (Inl e)
    with ms show ?thesis by (simp add: after_def and_then_def)
  next
    case (Inr a)
    from assms [of a] have "after (f a) s' (\<lambda>r s'. \<forall>a. r = Inr a \<longrightarrow> P a)"
      unfolding returns_only_def by (rule spec)
    with ms Inr show ?thesis by (simp add: after_def and_then_def)
  qed
qed

lemma buildAPK_steps_result: "returns_only r_success (buildAPK_steps env config)"
  unfolding buildAPK_steps_def Let_def
  by (intro returns_only_and_then returns_only_ok) simp

lemma take_anchors_neq: "k < 9 \<Longrightarrow> take k anchors \<noteq> anchors"
proof
  assume "k < 9" and "take k anchors = anchors"
  then have "length (take k anchors) = length anchors" by simp
  with \<open>k < 9\<close> show False by (simp add: anchors_def)
qed

lemma reports_from_ok: "k = 9 \<Longrightarrow> reports_from k (ok a)"
  by (simp add: reports_from_def after_ok anchors_def)

lemma reports_from_stage:
  assumes "k < 9" and "\<And>a. reports_from k (f a)"
  shows "reports_from k (and_then (stage m) f)"
  unfolding reports_from_def
proof (intro allI impI)
  fix d :: disk and evs :: "build_progress list"
  assume evs: "map progress evs = take k anchors"
  show "after (and_then (stage m) f) (d, evs)
          (\<lambda>r s'. prefix (map progress (snd s')) anchors \<and> (isl r \<longleftrightarrow> map progress (snd s') \<noteq> anchors))"
    unfolding after_and_then after_stage fst_conv snd_conv
  proof (rule after_all)
    fix r d'
    show "case r of
            Inl e \<Rightarrow> prefix (map progress evs) anchors
                      \<and> (isl (Inl e :: string + 'c) \<longleftrightarrow> map progress evs \<noteq> anchors)
          | Inr a \<Rightarrow> after (f a) (d', evs)
              (\<lambda>r s'. prefix (map progress (snd s')) anchors \<and> (isl r \<longleftrightarrow> map progress (snd s') \<noteq> anchors))"
    proof (cases r)
      case (Inl e)
      with evs take_anchors_neq [OF assms(1)] show ?thesis
        by (simp add: take_is_prefix)
    next
      case (Inr a)
      with assms(2) [of a] evs show ?thesis
        by (simp add: reports_from_def)
    qed
  qed
qed

lemma reports_from_onProgress:
  assumes "k < 9" and "anchors ! k = p" and "\<And>a. reports_from (Suc k) (f a)"
  shows "reports_from k (and_then (onProgress st p msg) f)"
  unfolding reports_from_def
proof (intro allI impI)
  fix d :: disk and evs :: "build_progress list"
  assume evs: "map progress evs = take k anchors"
  from assms(1) have "k < length anchors" by (simp add: anchors_def)
  with evs assms(2) have "map progress (evs @ [\<lparr>step = st, progress = p, message = msg\<rparr>])
      = take (Suc k) anchors"
    by (simp add: take_Suc_conv_app_nth)
  with assms(3) [of "()"] show "after (and_then (onProgress st p msg) f) (d, evs)
          (\<lambda>r s'. prefix (map progress (snd s')) anchors \<and> (isl r \<longleftrightarrow> map progress (snd s') \<noteq> anchors))"
    unfolding after_and_then after_onProgress fst_conv snd_conv
    by (simp add: reports_from_def)
qed

lemma buildAPK_steps_reports: "reports_from 0 (buildAPK_steps env config)"
  unfolding buildAPK_steps_def Let_def
  by (intro reports_from_onProgress reports_from_stage reports_from_ok)
     (simp_all add: anchors_def)

lemma buildAPK_reports:
  assumes "buildAPK env config d = (res, d', reports)"
  shows "prefix (map progress reports) anchors"
    and "r_success res \<Longrightarrow> map progress reports = anchors"
    and "\<not> r_success res \<Longrightarrow> map progress reports \<noteq> anchors"
    and "r_success res \<or> r_progress res = Some 0"
proof -
  obtain r s where rs: "buildAPK_steps env config (d, []) = (r, s)"
    by (cases "buildAPK_steps env config (d, [])")
  have "after (buildAPK_steps env config) (d, [])
          (\<lambda>r s'. prefix (map progress (snd s')) anchors \<and> (isl r \<longleftrightarrow> map progress (snd s') \<noteq> anchors))"
    using buildAPK_steps_reports [of env config] by (simp add: reports_from_def)
  note post = afterD [OF this rs]
  have "after (buildAPK_steps env config) (d, []) (\<lambda>r s'. \<forall>a. r = Inr a \<longrightarrow> r_success a)"
    using buildAPK_steps_result [of env config] by (simp add: returns_only_def)
  note res = afterD [OF this rs]
  have succ: "r_success res \<longleftrightarrow> \<not> isl r" and rep: "reports = snd s"
    and zero: "isl r \<longrightarrow> r_progress res = Some 0"
    using assms rs res by (auto simp: buildAPK_def split: sum.splits)
  from post rep show "prefix (map progress reports) anchors" by simp
  from post rep succ show "r_success res \<Longrightarrow> map progress reports = anchors" by simp
  from post rep succ show "\<not> r_success res \<Longrightarrow> map progress reports \<noteq> anchors" by simp
  from succ zero show "r_success res \<or> r_progress res = Some 0" by blast
qed

section \<open>A failing keytool fails the job\<close>

lemma generateKeystore_fails: "keytool env = Inl e \<Longrightarrow> fails (generateKeystore env projectDir config)"
  unfolding generateKeystore_def Let_def
  by (rule fails_now) (simp add: fails_run_tool)

lemma buildAPK_steps_keytool:
  assumes "keytool env = Inl e"
  shows "fails (buildAPK_steps env config)"
  unfolding buildAPK_steps_def Let_def
  apply (rule fails_later)
  apply (rule fails_later)
  apply (rule fails_later)
  apply (rule fails_later)
  apply (rule fails_later)
  apply (rule fails_now)
  apply (rule fails_stage)
  apply (rule generateKeystore_fails [OF assms])
  done

lemma buildAPK_failed:
  assumes "fails (buildAPK_steps env config)"
  shows "\<exists>msg d' reports. buildAPK env config d =
           (\<lparr>r_success = False, r_apkPath = None, r_aabPath = None, r_keystorePath = None,
             r_error = Some msg, r_buildId = nanoid env, r_progress = Some 0\<rparr>, d', reports)"
proof -
  from failsD [OF assms, of "(d, [])"] obtain msg s' where
    "buildAPK_steps env config (d, []) = (Inl msg, s')" by blast
  then show ?thesis
    by (cases s') (simp add: buildAPK_def)
qed

lemma record_progress_keeps:
  assumes "builds (fst s) i = Some b"
  shows "\<exists>b'. builds (fst (snd (record_update now i (progress_update p) s))) i = Some b'
           \<and> b_outputPath b' = b_outputPath b \<and> b_aabPath b' = b_aabPath b"
  using assms
  by (simp add: record_update_def updateBuild_def progress_update_def no_updates_def
        spread_build_def spread_def Let_def)

lemma progress_updates_keep:
  "builds (fst s) i = Some b \<Longrightarrow>
     \<exists>b'. builds (fst (foldl (\<lambda>s p. snd (record_update now i (progress_update p) s)) s reports)) i = Some b'
          \<and> b_outputPath b' = b_outputPath b \<and> b_aabPath b' = b_aabPath b"
proof (induction reports arbitrary: s b)
  case Nil
  then show ?case by simp
next
  case (Cons p reports)
  from record_progress_keeps [OF Cons.prems, of now p] obtain b1 where
    b1: "builds (fst (snd (record_update now i (progress_update p) s))) i = Some b1"
    and o1: "b_outputPath b1 = b_outputPath b" "b_aabPath b1 = b_aabPath b"
    by blast
  from Cons.IH [OF b1] o1 show ?case by simp
qed

text \<open>
  C3: when the keystore tool fails, \<open>buildAPK\<close> returns a failure without a package path,
  whatever the other steps do, and the job of the route leaves the build of the store with the
  status \<open>failed\<close>, completed, and with the output path it had before.
\<close>

theorem keystore_failure_fails_job:
  assumes "keytool env = Inl e"
  shows "\<not> r_success (fst (buildAPK env config d))
     \<and> r_apkPath (fst (buildAPK env config d)) = None
     \<and> r_error (fst (buildAPK env config d)) \<noteq> None
     \<and> (\<forall>b. builds st i = Some b \<longrightarrow>
          (\<exists>b'. builds (fst (fst (build_job env now i projectId rs st d0))) i = Some b'
             \<and> b_status b' = Val ''failed'' \<and> b_completedAt b' = Val now
             \<and> b_outputPath b' = b_outputPath b))"
proof -
  note f = buildAPK_steps_keytool [OF assms]
  from buildAPK_failed [OF f, where d = d and config = config] have 1: "\<not> r_success (fst (buildAPK env config d))
     \<and> r_apkPath (fst (buildAPK env config d)) = None
     \<and> r_error (fst (buildAPK env config d)) \<noteq> None"
    by auto
  have 2: "\<exists>b'. builds (fst (fst (build_job env now i projectId rs st d0))) i = Some b'
             \<and> b_status b' = Val ''failed'' \<and> b_completedAt b' = Val now
             \<and> b_outputPath b' = b_outputPath b" if st: "builds st i = Some b" for b
  proof (cases "case getProject st projectId of
               None \<Rightarrow> Inl ''Project not found''
             | Some project \<Rightarrow>
                 (case read_files env (getProjectFiles st projectId) of
                    Inl e \<Rightarrow> Inl e
                  | Inr fl \<Rightarrow> Inr (buildConfig project fl rs))")
    case (Inl msg)
    with st show ?thesis
      by (simp add: build_job_def Let_def record_update_def updateBuild_def crash_update_def
            no_updates_def spread_build_def spread_def)
  next
    case (Inr cfg)
    from buildAPK_failed [OF buildAPK_steps_keytool [OF assms], where config = cfg and d = "new_build_system env d0"]
    obtain msg d2 reports where
      res: "buildAPK env cfg (new_build_system env d0) =
           (\<lparr>r_success = False, r_apkPath = None, r_aabPath = None, r_keystorePath = None,
             r_error = Some msg, r_buildId = nanoid env, r_progress = Some 0\<rparr>, d2, reports)"
      by blast
    let ?s1 = "foldl (\<lambda>s p. snd (record_update now i (progress_update p) s)) (st, []) reports"
    from progress_updates_keep [of "(st, [])" i b now reports] st obtain b1 where
      b1: "builds (fst ?s1) i = Some b1" and o1: "b_outputPath b1 = b_outputPath b"
      by auto
    from Inr res b1 o1 show ?thesis
      by (simp add: build_job_def Let_def record_update_def updateBuild_def failure_update_def
            no_updates_def spread_build_def spread_def)
  qed
  from 1 2 show ?thesis by blast
qed

theorem keystore_failure_fails_job_witness:
  "keytool env_no_keytool = Inl ''keytool: command not found''
   \<and> \<not> r_success (fst (buildAPK env_no_keytool config0 disk0))
   \<and> r_apkPath (fst (buildAPK env_no_keytool config0 disk0)) = None
   \<and> builds store0 1 = Some sample_build
   \<and> (\<exists>b'. builds (fst (fst (build_job env_no_keytool 250 1 (Some 1) signing0 store0 disk0))) 1 = Some b'
         \<and> b_status b' = Val ''failed'' \<and> b_completedAt b' = Val 250 \<and> b_outputPath b' = Null)"
proof -
  have k: "keytool env_no_keytool = Inl ''keytool: command not found''"
    by (simp add: env_no_keytool_def)
  have b: "builds store0 1 = Some sample_build"
    by (simp add: store0_def)
  have o: "b_outputPath sample_build = Null"
    by (simp add: sample_build_def)
  note t = keystore_failure_fails_job [OF k, of config0 disk0 store0 1 250 "Some 1" signing0 disk0]
  from t b o k show ?thesis by auto
qed

section \<open>Rules for the disk\<close>

lemma keeps_ok: "(\<And>s. K s s) \<Longrightarrow> keeps K (ok a)"
  by (simp add: keeps_def after_ok)

lemma keeps_throw: "(\<And>s. K s s) \<Longrightarrow> keeps K (throw e)"
  by (simp add: keeps_def after_throw)

lemma keeps_run_tool: "(\<And>s. K s s) \<Longrightarrow> keeps K (run_tool t)"
  by (simp add: keeps_def after_run_tool split: sum.split)

lemma keepsD:
  assumes "keeps K m" and "m s = (r, s')"
  shows "K s s'"
proof -
  from assms(1) have "after m s (\<lambda>r s'. K s s')" by (simp add: keeps_def)
  with assms(2) show ?thesis by (simp add: after_def)
qed

lemma keeps_and_then:
  assumes trans: "\<And>a b c. K a b \<Longrightarrow> K b c \<Longrightarrow> K a c"
    and m: "keeps K m" and f: "\<And>a. keeps K (f a)"
  shows "keeps K (and_then m f)"
  unfolding keeps_def
proof
  fix s
  obtain r s1 where ms: "m s = (r, s1)" by (cases "m s")
  note k1 = keepsD [OF m ms]
  show "after (and_then m f) s (\<lambda>r s'. K s s')"
  proof (cases r)
    case (Inl e)
    with ms k1 show ?thesis by (simp add: after_def and_then_def)
  next
    case (Inr a)
    obtain r2 s2 where fs: "f a s1 = (r2, s2)" by (cases "f a s1")
    from trans [OF k1 keepsD [OF f fs]] ms Inr fs show ?thesis
      by (simp add: after_def and_then_def)
  qed
qed

lemma keeps_try_catch:
  assumes trans: "\<And>a b c. K a b \<Longrightarrow> K b c \<Longrightarrow> K a c"
    and m: "keeps K m" and h: "\<And>e. keeps K (h e)"
  shows "keeps K (try_catch m h)"
  unfolding keeps_def
proof
  fix s
  obtain r s1 where ms: "m s = (r, s1)" by (cases "m s")
  note k1 = keepsD [OF m ms]
  show "after (try_catch m h) s (\<lambda>r s'. K s s')"
  proof (cases r)
    case (Inr a)
    with ms k1 show ?thesis by (simp add: after_def try_catch_def)
  next
    case (Inl e)
    obtain r2 s2 where hs: "h e s1 = (r2, s2)" by (cases "h e s1")
    from trans [OF k1 keepsD [OF h hs]] ms Inl hs show ?thesis
      by (simp add: after_def try_catch_def)
  qed
qed

lemma files_kept_refl: "files_kept d d"
  by (simp add: files_kept_def)

lemma files_kept_trans: "files_kept a b \<Longrightarrow> files_kept b c \<Longrightarrow> files_kept a c"
  unfolding files_kept_def by meson

lemma only_writes_refl: "only_writes W d d"
  by (simp add: only_writes_def)

lemma only_writes_trans: "only_writes W a b \<Longrightarrow> only_writes W b c \<Longrightarrow> only_writes W a c"
  unfolding only_writes_def by (metis option.distinct(1))

lemma only_writes_mono: "only_writes V a b \<Longrightarrow> V \<subseteq> W \<Longrightarrow> only_writes W a b"
  unfolding only_writes_def by blast

lemma keeps_only_writes_mono: "keeps (only_writes V) m \<Longrightarrow> V \<subseteq> W \<Longrightarrow> keeps (only_writes W) m"
  unfolding keeps_def after_def using only_writes_mono by (fastforce split: prod.splits)

lemma is_file_kept: "files_kept d d' \<Longrightarrow> is_file d p \<Longrightarrow> is_file d' p"
  by (auto simp: files_kept_def is_file_def split: option.splits node.splits)

lemma only_writes_same: "only_writes W d d' \<Longrightarrow> p \<notin> W \<Longrightarrow> nodes d p = Some (File c) \<Longrightarrow> nodes d' p = Some (File c)"
  by (auto simp: only_writes_def)


lemma keeps_fs_call:
  assumes "\<And>d. K d (d\<lparr>tick := tick d + 1\<rparr>)"
    and "\<And>d n. f (nodes d) = Inr n \<Longrightarrow> K d \<lparr>nodes = n, tick = tick d + 1\<rparr>"
  shows "keeps K (fs_call io f)"
  unfolding keeps_def after_def fs_call_def
  using assms by (auto split: option.splits sum.splits)

lemma with_directories_file [simp]:
  "with_directories p n q = Some (File c) \<longleftrightarrow> n q = Some (File c)"
  by (simp add: with_directories_def)

lemma files_kept_mkdir: "keeps files_kept (mkdir io p)"
  unfolding mkdir_def by (rule keeps_fs_call) (auto simp: files_kept_def)

lemma files_kept_writeFile: "keeps files_kept (writeFile io p c)"
  unfolding writeFile_def by (rule keeps_fs_call) (auto simp: files_kept_def)

lemma files_kept_copyFile: "keeps files_kept (copyFile io src dest)"
  unfolding copyFile_def
  by (rule keeps_fs_call) (auto simp: files_kept_def split: option.splits node.splits)

lemma files_kept_access: "keeps files_kept (access io p)"
  unfolding access_def
  by (rule keeps_fs_call) (auto simp: files_kept_def split: if_splits)

lemma files_kept_tool_output: "keeps files_kept (tool_output p c)"
  by (auto simp: keeps_def after_def tool_output_def files_kept_def)

lemma only_writes_mkdir: "keeps (only_writes W) (mkdir io p)"
  unfolding mkdir_def
  by (rule keeps_fs_call) (auto simp: only_writes_def with_directories_def)

lemma only_writes_writeFile: "p \<in> W \<Longrightarrow> keeps (only_writes W) (writeFile io p c)"
  unfolding writeFile_def by (rule keeps_fs_call) (auto simp: only_writes_def split: if_splits)

lemma only_writes_copyFile: "dest \<in> W \<Longrightarrow> keeps (only_writes W) (copyFile io src dest)"
  unfolding copyFile_def
  by (rule keeps_fs_call) (auto simp: only_writes_def split: option.splits node.splits if_splits)

lemma only_writes_access: "keeps (only_writes W) (access io p)"
  unfolding access_def
  by (rule keeps_fs_call) (auto simp: only_writes_def split: if_splits)

lemma only_writes_tool_output: "p \<in> W \<Longrightarrow> keeps (only_writes W) (tool_output p c)"
  by (auto simp: keeps_def after_def tool_output_def only_writes_def with_directories_def)

text \<open>With no failure of the file system the calls that write have their effect.\<close>

lemma mkdir_quiet:
  "quiet io \<Longrightarrow> mkdir io p d = (Inr (), \<lparr>nodes = with_directories p (nodes d), tick = tick d + 1\<rparr>)"
  by (simp add: mkdir_def fs_call_def quiet_def)

lemma writeFile_quiet:
  "quiet io \<Longrightarrow> writeFile io p c d = (Inr (), \<lparr>nodes = (nodes d)(p \<mapsto> File c), tick = tick d + 1\<rparr>)"
  by (simp add: writeFile_def fs_call_def quiet_def)

lemma copyFile_quiet:
  "quiet io \<Longrightarrow> nodes d src = Some (File c) \<Longrightarrow>
     copyFile io src dest d = (Inr (), \<lparr>nodes = (nodes d)(dest \<mapsto> File c), tick = tick d + 1\<rparr>)"
  by (simp add: copyFile_def fs_call_def quiet_def)

lemma succeedsD: 
  assumes "succeeds m"
  shows "\<exists>a s'. m s = (Inr a, s')"
proof -
  obtain r s' where ms: "m s = (r, s')" by (cases "m s")
  from assms have "after m s (\<lambda>r s'. \<not> isl r)" by (simp add: succeeds_def)
  with ms have "\<not> isl r" by (simp add: after_def)
  then obtain a where "r = Inr a" by (cases r) simp_all
  with ms show ?thesis by simp
qed

lemma succeeds_ok: "succeeds (ok a)"
  by (simp add: succeeds_def after_ok)

lemma succeeds_and_then:
  assumes m: "succeeds m" and f: "\<And>a. succeeds (f a)"
  shows "succeeds (and_then m f)"
  unfolding succeeds_def
proof
  fix s
  from succeedsD [OF m, of s] obtain a s1 where ms: "m s = (Inr a, s1)" by blast
  from succeedsD [OF f, of a s1] obtain b s2 where fs: "f a s1 = (Inr b, s2)" by blast
  from ms fs show "after (and_then m f) s (\<lambda>r s'. \<not> isl r)"
    by (simp add: after_def and_then_def)
qed

lemma succeeds_try_catch:
  assumes h: "\<And>e. succeeds (h e)"
  shows "succeeds (try_catch m h)"
  unfolding succeeds_def
proof
  fix s
  obtain r s1 where ms: "m s = (r, s1)" by (cases "m s")
  show "after (try_catch m h) s (\<lambda>r s'. \<not> isl r)"
  proof (cases r)
    case (Inr a)
    with ms show ?thesis by (simp add: after_def try_catch_def)
  next
    case (Inl e)
    from succeedsD [OF h, of e s1] obtain b s2 where "h e s1 = (Inr b, s2)" by blast
    with ms Inl show ?thesis by (simp add: after_def try_catch_def)
  qed
qed

lemma succeeds_mkdir: "quiet io \<Longrightarrow> succeeds (mkdir io p)"
  by (simp add: succeeds_def after_def mkdir_quiet)

lemma succeeds_writeFile: "quiet io \<Longrightarrow> succeeds (writeFile io p c)"
  by (simp add: succeeds_def after_def writeFile_quiet)

lemma succeeds_tool_output: "succeeds (tool_output p c)"
  by (simp add: succeeds_def after_def tool_output_def)

lemma succeeds_run_tool: "succeeds (run_tool (Inr a))"
  by (simp add: succeeds_def after_run_tool)

section \<open>Paths of the builder\<close>

lemma split_on_without: "d \<notin> set s \<Longrightarrow> split_on d s = [s]"
  by (induction s) auto

lemma plain_join: "plain s \<Longrightarrow> path_join p s = p @ [s]"
  by (simp add: plain_def path_join_def split_on_without)

lemma join_all_Nil: "join_all p [] = p"
  by (simp add: join_all_def)

lemma join_all_Cons: "join_all p (s # ss) = join_all (path_join p s) ss"
  by (simp add: join_all_def)

lemma longer_neq: "length x < length y \<Longrightarrow> y \<noteq> x"
  by auto

lemma plain_append:
  assumes "CHR ''/'' \<notin> set b" and "CHR ''/'' \<notin> set t" and "2 < length t"
  shows "plain (b @ t)"
proof -
  from assms(3) have "b @ t \<noteq> []" and "b @ t \<noteq> ''.''" and "b @ t \<noteq> ''..''"
    by (auto simp: longer_neq)
  with assms(1,2) show ?thesis by (simp add: plain_def)
qed

lemma nanoid_no_slash: "is_nanoid b \<Longrightarrow> CHR ''/'' \<notin> set b"
  by (auto simp: is_nanoid_def urlAlphabet_def)

lemma nanoid_plain:
  assumes "is_nanoid b"
  shows "plain b"
proof -
  from assms have "length b = 21" by (simp add: is_nanoid_def)
  then have "b \<noteq> []" and "b \<noteq> ''.''" and "b \<noteq> ''..''"
    by (simp_all add: longer_neq)
  with nanoid_no_slash [OF assms] show ?thesis by (simp add: plain_def)
qed

lemma final_paths:
  assumes "is_nanoid b"
  shows "path_join out (b @ ''-signed.apk'') = out @ [b @ ''-signed.apk'']"
    and "path_join out (b @ ''-bundle.aab'') = out @ [b @ ''-bundle.aab'']"
    and "path_join out (b @ ''-keystore.jks'') = out @ [b @ ''-keystore.jks'']"
  using nanoid_no_slash [OF assms] by (simp_all add: plain_join plain_append)

lemma project_paths:
  "path_join pd ''app-release.apk'' = pd @ [''app-release.apk'']"
  "path_join pd ''app-release.aab'' = pd @ [''app-release.aab'']"
  "path_join pd ''app.jks'' = pd @ [''app.jks'']"
  "join_all pd [''app'', ''build'', ''outputs'', ''apk'', ''release'', ''app-release.apk'']
     = pd @ [''app'', ''build'', ''outputs'', ''apk'', ''release'', ''app-release.apk'']"
  "join_all pd [''app'', ''build'', ''outputs'', ''bundle'', ''release'', ''app-release.aab'']
     = pd @ [''app'', ''build'', ''outputs'', ''bundle'', ''release'', ''app-release.aab'']"
  by (simp_all add: plain_join plain_def join_all_Nil join_all_Cons)
section \<open>The stages when nothing fails\<close>

lemma succeeds_if: "succeeds a \<Longrightarrow> succeeds b \<Longrightarrow> succeeds (if c then a else b)"
  by simp

lemma succeeds_writeText: "quiet (io_error env) \<Longrightarrow> succeeds (writeText env p t config)"
  by (simp add: writeText_def succeeds_writeFile)

lemma succeeds_createAppIcon: "quiet (io_error env) \<Longrightarrow> succeeds (createAppIcon env p sz name)"
  unfolding createAppIcon_def by (rule succeeds_try_catch) (rule succeeds_writeFile)

lemma succeeds_create_icons: "quiet (io_error env) \<Longrightarrow> succeeds (create_icons env resDir name sizes)"
  by (induction sizes) (simp_all add: succeeds_ok succeeds_and_then succeeds_createAppIcon)

lemma succeeds_copy_files: "quiet (io_error env) \<Longrightarrow> succeeds (copy_files env assetsDir fl)"
  by (induction fl)
     (simp_all add: succeeds_ok succeeds_and_then succeeds_mkdir succeeds_writeFile Let_def)

lemmas succeeds_rules = succeeds_and_then succeeds_ok succeeds_mkdir succeeds_writeFile
  succeeds_writeText succeeds_try_catch succeeds_tool_output succeeds_if succeeds_create_icons
  succeeds_copy_files

lemma succeeds_createAndroidProject:
  "quiet (io_error env) \<Longrightarrow> succeeds (createAndroidProject env projectDir config)"
  unfolding createAndroidProject_def Let_def generateManifest_def generateMainActivity_def
    generateLayoutFiles_def generateResources_def generateAppIcons_def copyWebAssets_def
    createWebsiteAssets_def
  by (intro succeeds_rules) assumption+

lemma succeeds_setupGradleBuild:
  "quiet (io_error env) \<Longrightarrow> succeeds (setupGradleBuild env projectDir config)"
  unfolding setupGradleBuild_def createGradleWrapper_def Let_def
  by (intro succeeds_rules) assumption+

lemma files_kept_if: "keeps K a \<Longrightarrow> keeps K b \<Longrightarrow> keeps K (if c then a else b)"
  by simp

lemmas files_kept_rules =
  keeps_and_then [where K = files_kept, OF files_kept_trans]
  keeps_try_catch [where K = files_kept, OF files_kept_trans]
  keeps_ok [where K = files_kept, OF files_kept_refl]
  keeps_throw [where K = files_kept, OF files_kept_refl]
  keeps_run_tool [where K = files_kept, OF files_kept_refl]
  files_kept_mkdir files_kept_writeFile files_kept_copyFile files_kept_access
  files_kept_tool_output files_kept_if

lemma files_kept_setupGradleBuild: "keeps files_kept (setupGradleBuild env projectDir config)"
  unfolding setupGradleBuild_def createGradleWrapper_def Let_def writeText_def
  by (intro files_kept_rules)

lemma files_kept_createManualAPK: "keeps files_kept (createManualAPK env projectDir config)"
  by (auto simp: keeps_def after_def createManualAPK_def Let_def files_kept_def split: option.splits)

lemma files_kept_createManualAAB: "keeps files_kept (createManualAAB env projectDir config)"
  by (auto simp: keeps_def after_def createManualAAB_def Let_def files_kept_def split: option.splits)

lemma files_kept_case_option:
  "keeps K a \<Longrightarrow> (\<And>x. keeps K (f x)) \<Longrightarrow> keeps K (case out of None \<Rightarrow> a | Some x \<Rightarrow> f x)"
  by (cases out) simp_all

lemma files_kept_buildWithGradle: "keeps files_kept (buildWithGradle env projectDir config)"
  unfolding buildWithGradle_def Let_def
  by (intro files_kept_rules files_kept_createManualAPK files_kept_case_option)

lemma files_kept_createAAB: "keeps files_kept (createAAB env projectDir config)"
  unfolding createAAB_def Let_def
  by (intro files_kept_rules files_kept_createManualAAB files_kept_case_option)

lemmas only_writes_rules =
  keeps_and_then [where K = "only_writes W", OF only_writes_trans]
  keeps_try_catch [where K = "only_writes W", OF only_writes_trans]
  keeps_ok [where K = "only_writes W", OF only_writes_refl]
  keeps_throw [where K = "only_writes W", OF only_writes_refl]
  keeps_run_tool [where K = "only_writes W", OF only_writes_refl]
  only_writes_mkdir only_writes_writeFile only_writes_copyFile only_writes_access
  only_writes_tool_output files_kept_if files_kept_case_option
  for W

lemma only_writes_createManualAAB:
  "path_join projectDir ''app-release.aab'' \<in> W \<Longrightarrow>
     keeps (only_writes W) (createManualAAB env projectDir config)"
  by (auto simp: keeps_def after_def createManualAAB_def Let_def only_writes_def split: option.splits)

lemma only_writes_createAAB:
  "keeps (only_writes
     {projectDir @ [''app'', ''build'', ''outputs'', ''bundle'', ''release'', ''app-release.aab''],
      projectDir @ [''app-release.aab'']})
     (createAAB env projectDir config)"
  unfolding createAAB_def Let_def project_paths
  by (intro only_writes_rules only_writes_createManualAAB) (simp_all add: project_paths)

text \<open>The keystore.\<close>

lemma generateKeystore_ok:
  "keytool env = Inr ks \<Longrightarrow>
     generateKeystore env pd config d
       = (Inr (pd @ [''app.jks'']),
          d\<lparr>nodes := (with_directories (dirname (pd @ [''app.jks''])) (nodes d))(pd @ [''app.jks''] \<mapsto> File ks)\<rparr>)"
  by (simp add: generateKeystore_def Let_def project_paths and_then_def run_tool_def ok_def tool_output_def)

text \<open>The package: the one of Gradle, or the manual one when Gradle fails.\<close>

lemma buildWithGradle_gradle:
  assumes "quiet (io_error env)" and "gradle_assemble env = Inr (Some apk)"
  shows "\<exists>d'. buildWithGradle env pd config d
           = (Inr (pd @ [''app'', ''build'', ''outputs'', ''apk'', ''release'', ''app-release.apk'']), d')
         \<and> nodes d' (pd @ [''app'', ''build'', ''outputs'', ''apk'', ''release'', ''app-release.apk''])
             = Some (File apk)"
  using assms
  by (simp add: buildWithGradle_def Let_def project_paths try_catch_def and_then_def run_tool_def
        ok_def tool_output_def access_def fs_call_def quiet_def)

lemma buildWithGradle_manual:
  assumes "gradle_assemble env = Inl e" and "archiver_apk env = None"
  shows "buildWithGradle env pd config d
           = (Inr (pd @ [''app-release.apk'']),
              d\<lparr>nodes := (nodes d)(pd @ [''app-release.apk'']
                   \<mapsto> File (Archive (manual_apk_entries (nodes d) pd)))\<rparr>)"
  using assms
  by (simp add: buildWithGradle_def Let_def project_paths try_catch_def and_then_def run_tool_def
        throw_def createManualAPK_def)

text \<open>The signer: its failure is caught, and the path of the unsigned package comes back.\<close>

lemma signAPK_fallback:
  "jarsigner env = Inl e \<Longrightarrow> signAPK env apkPath keystorePath config d = (Inr apkPath, d)"
  by (simp add: signAPK_def Let_def try_catch_def and_then_def run_tool_def throw_def ok_def)


text \<open>The bundle: any failure of the Gradle path leads to the manual bundle.\<close>

lemma createAAB_result:
  "createAAB env pd config d = (r, d') \<Longrightarrow>
     (r = Inr (pd @ [''app-release.aab'']) \<and> is_file d' (pd @ [''app-release.aab'']))
     \<or> (\<exists>err. archiver_aab env = Some err \<and> r = Inl err)"
  by (auto simp: createAAB_def Let_def project_paths try_catch_def and_then_def run_tool_def
        ok_def throw_def tool_output_def copyFile_def fs_call_def createManualAAB_def is_file_def
      split: sum.splits option.splits node.splits if_splits prod.splits)

section \<open>A build whose signer fails\<close>

lemma is_file_Some: "is_file d p \<longleftrightarrow> (\<exists>c. nodes d p = Some (File c))"
  by (auto simp: is_file_def split: option.splits node.splits)

lemma buildAPK_unsigned:
  assumes j: "jarsigner env = Inl e" and q: "quiet (io_error env)" and k: "keytool env = Inr ks"
    and aab: "archiver_aab env = None" and n: "is_nanoid (nanoid env)"
    and pkg: "(\<exists>apk. gradle_assemble env = Inr (Some apk))
              \<or> (isl (gradle_assemble env) \<and> archiver_apk env = None)"
  shows "\<exists>d' reports U. buildAPK env config d =
       (\<lparr>r_success = True,
         r_apkPath = Some (outputDir env @ [nanoid env @ ''-signed.apk'']),
         r_aabPath = Some (outputDir env @ [nanoid env @ ''-bundle.aab'']),
         r_keystorePath = Some (outputDir env @ [nanoid env @ ''-keystore.jks'']),
         r_error = None, r_buildId = nanoid env, r_progress = Some 100\<rparr>, d', reports)
     \<and> nodes d' (outputDir env @ [nanoid env @ ''-signed.apk'']) = Some (File U)
     \<and> is_file d' (outputDir env @ [nanoid env @ ''-bundle.aab''])
     \<and> is_file d' (outputDir env @ [nanoid env @ ''-keystore.jks''])
     \<and> ((\<exists>apk. gradle_assemble env = Inr (Some apk) \<and> U = apk)
        \<or> (isl (gradle_assemble env)
           \<and> (\<exists>n. U = Archive (manual_apk_entries n (path_join (buildDir env) (nanoid env))))))"
proof -
  let ?io = "io_error env"
  let ?pd = "path_join (buildDir env) (nanoid env)"
  let ?FA = "outputDir env @ [nanoid env @ ''-signed.apk'']"
  let ?FB = "outputDir env @ [nanoid env @ ''-bundle.aab'']"
  let ?FK = "outputDir env @ [nanoid env @ ''-keystore.jks'']"
  let ?KS = "?pd @ [''app.jks'']"
  let ?AAB = "?pd @ [''app-release.aab'']"
  let ?W = "{?pd @ [''app'', ''build'', ''outputs'', ''bundle'', ''release'', ''app-release.aab''], ?AAB}"
  note fp = final_paths [OF n]
  obtain d1 where m1: "mkdir ?io ?pd d = (Inr (), d1)"
    using mkdir_quiet [OF q] by blast
  from succeedsD [OF succeeds_createAndroidProject [OF q]]
  obtain u2 d2 where m2: "createAndroidProject env ?pd config d1 = (Inr u2, d2)" by blast
  obtain d3 where m3: "generateKeystore env ?pd config d2 = (Inr ?KS, d3)" and f3: "is_file d3 ?KS"
    using generateKeystore_ok [OF k, of ?pd config d2] by (simp add: is_file_def)
  from succeedsD [OF succeeds_setupGradleBuild [OF q]]
  obtain u4 d4 where m4: "setupGradleBuild env ?pd config d3 = (Inr u4, d4)" by blast
  from is_file_kept [OF keepsD [OF files_kept_setupGradleBuild m4] f3] have f4: "is_file d4 ?KS" .
  have "\<exists>A U d5. buildWithGradle env ?pd config d4 = (Inr A, d5) \<and> nodes d5 A = Some (File U)
          \<and> A \<notin> ?W
          \<and> ((\<exists>apk. gradle_assemble env = Inr (Some apk) \<and> U = apk)
             \<or> (isl (gradle_assemble env) \<and> (\<exists>n. U = Archive (manual_apk_entries n ?pd))))"
  proof (cases "\<exists>apk. gradle_assemble env = Inr (Some apk)")
    case True
    then obtain apk where g: "gradle_assemble env = Inr (Some apk)" by blast
    from buildWithGradle_gradle [OF q g, of ?pd config d4] g show ?thesis by auto
  next
    case False
    with pkg obtain err where g: "gradle_assemble env = Inl err" and a: "archiver_apk env = None"
      by (cases "gradle_assemble env") auto
    from buildWithGradle_manual [OF g a, of ?pd config d4] g show ?thesis by auto
  qed
  then obtain A U d5 where m5: "buildWithGradle env ?pd config d4 = (Inr A, d5)"
    and a5: "nodes d5 A = Some (File U)" and aw: "A \<notin> ?W"
    and u: "(\<exists>apk. gradle_assemble env = Inr (Some apk) \<and> U = apk)
             \<or> (isl (gradle_assemble env) \<and> (\<exists>n. U = Archive (manual_apk_entries n ?pd)))"
    by blast
  from is_file_kept [OF keepsD [OF files_kept_buildWithGradle m5] f4] have f5: "is_file d5 ?KS" .
  note m6 = signAPK_fallback [OF j, of A ?KS config d5]
  obtain r7 d7 where m7': "createAAB env ?pd config d5 = (r7, d7)"
    by (cases "createAAB env ?pd config d5")
  from createAAB_result [OF m7'] aab have r7: "r7 = Inr ?AAB" and b7: "is_file d7 ?AAB"
    by auto
  from m7' r7 have m7: "createAAB env ?pd config d5 = (Inr ?AAB, d7)" by simp
  from is_file_kept [OF keepsD [OF files_kept_createAAB m7] f5] have f7: "is_file d7 ?KS" .
  from only_writes_same [OF keepsD [OF only_writes_createAAB m7] aw a5]
  have a7: "nodes d7 A = Some (File U)" .
  from b7 obtain B where b7': "nodes d7 ?AAB = Some (File B)" by (auto simp: is_file_Some)
  from f7 obtain K where f7': "nodes d7 ?KS = Some (File K)" by (auto simp: is_file_Some)
  define d8 where "d8 = \<lparr>nodes = (nodes d7)(?FA \<mapsto> File U), tick = tick d7 + 1\<rparr>"
  have c1: "copyFile ?io A ?FA d7 = (Inr (), d8)"
    unfolding d8_def by (rule copyFile_quiet [OF q a7])
  have "\<exists>B'. nodes d8 ?AAB = Some (File B')" using b7' by (simp add: d8_def)
  then obtain B' where b8: "nodes d8 ?AAB = Some (File B')" by blast
  define d9 where "d9 = \<lparr>nodes = (nodes d8)(?FB \<mapsto> File B'), tick = tick d8 + 1\<rparr>"
  have c2: "copyFile ?io ?AAB ?FB d8 = (Inr (), d9)"
    unfolding d9_def by (rule copyFile_quiet [OF q b8])
  have "\<exists>K'. nodes d9 ?KS = Some (File K')" using f7' by (simp add: d9_def d8_def)
  then obtain K' where f9: "nodes d9 ?KS = Some (File K')" by blast
  define d10 where "d10 = \<lparr>nodes = (nodes d9)(?FK \<mapsto> File K'), tick = tick d9 + 1\<rparr>"
  have c3: "copyFile ?io ?KS ?FK d9 = (Inr (), d10)"
    unfolding d10_def by (rule copyFile_quiet [OF q f9])
  have fin: "nodes d10 ?FA = Some (File U)" "is_file d10 ?FB" "is_file d10 ?FK"
    by (simp_all add: d10_def d9_def d8_def is_file_def)
  have "\<exists>reports. buildAPK_steps env config (d, []) =
       (Inr \<lparr>r_success = True, r_apkPath = Some ?FA, r_aabPath = Some ?FB,
         r_keystorePath = Some ?FK, r_error = None, r_buildId = nanoid env,
         r_progress = Some 100\<rparr>, (d10, reports))"
    by (simp add: buildAPK_steps_def Let_def and_then_def onProgress_def stage_def ok_def fp
          m1 m2 m3 m4 m5 m6 m7 c1 c2 c3)
  then obtain reports where "buildAPK env config d =
       (\<lparr>r_success = True, r_apkPath = Some ?FA, r_aabPath = Some ?FB,
         r_keystorePath = Some ?FK, r_error = None, r_buildId = nanoid env,
         r_progress = Some 100\<rparr>, d10, reports)"
    by (auto simp: buildAPK_def)
  with fin u show ?thesis by blast
qed


lemma manual_apk_META_INF:
  "manual_apk_entries n pd [''META-INF'', x]
     = (if x = ''MANIFEST.MF'' then Some (Bytes manifestMF) else None)"
  by (simp add: manual_apk_entries_def Let_def map_add_def archive_append_def archive_directory_def
        archive_file_def is_prefix_def split: option.splits node.splits)

lemma env0_facts:
  "jarsigner env0 = Inl ''jarsigner: unable to sign''" "quiet (io_error env0)"
  "keytool env0 = Inr (Bytes ''keystore'')" "archiver_aab env0 = None" "archiver_apk env0 = None"
  "gradle_assemble env0 = Inl ''gradle: not found''" "gradle_bundle env0 = Inl ''gradle: not found''"
  by (simp_all add: env0_def quiet_def)

lemma env0_names:
  "nanoid env0 = ''V1StGXR8_Z5jdHi6B-myT''" "cwd env0 = [''srv'', ''app'']"
  by (simp_all add: env0_def)

lemma env0_nanoid: "is_nanoid (nanoid env0)"
  by (simp add: env0_def is_nanoid_def urlAlphabet_def)

lemma env0_dirs:
  "outputDir env0 = outputs0" "path_join (buildDir env0) (nanoid env0) = project_dir0"
  "path_join (buildDir env0) ''V1StGXR8_Z5jdHi6B-myT'' = project_dir0"
  by (simp_all add: outputDir_def buildDir_def env0_def outputs0_def project_dir0_def
        plain_join plain_def)

text \<open>
  C1, as stated, fails: in the run \<open>env0\<close> the signer fails, and the build succeeds all the
  same. The file at the package path of the result is the archive that \<open>createManualAPK\<close>
  assembled: its \<open>META-INF\<close> holds the manifest and no signature.
\<close>

theorem signing_failure_counterexample:
  "jarsigner env0 = Inl ''jarsigner: unable to sign''
   \<and> r_success (fst (buildAPK env0 config0 (new_build_system env0 disk0)))
   \<and> r_apkPath (fst (buildAPK env0 config0 (new_build_system env0 disk0)))
        = Some (outputs0 @ [''V1StGXR8_Z5jdHi6B-myT-signed.apk''])
   \<and> package_at (fst (snd (buildAPK env0 config0 (new_build_system env0 disk0))))
        (outputs0 @ [''V1StGXR8_Z5jdHi6B-myT-signed.apk'']) [''META-INF'', ''MANIFEST.MF'']
        = Some (Bytes manifestMF)
   \<and> package_at (fst (snd (buildAPK env0 config0 (new_build_system env0 disk0))))
        (outputs0 @ [''V1StGXR8_Z5jdHi6B-myT-signed.apk'']) [''META-INF'', ''CERT.RSA'']
        = None"
proof -
  have pkg: "(\<exists>apk. gradle_assemble env0 = Inr (Some apk))
              \<or> (isl (gradle_assemble env0) \<and> archiver_apk env0 = None)"
    by (simp add: env0_facts)
  from buildAPK_unsigned [OF env0_facts(1) env0_facts(2) env0_facts(3) env0_facts(4) env0_nanoid pkg,
      of config0 "new_build_system env0 disk0"]
  obtain d' reports U where
    run: "buildAPK env0 config0 (new_build_system env0 disk0) =
       (\<lparr>r_success = True,
         r_apkPath = Some (outputDir env0 @ [nanoid env0 @ ''-signed.apk'']),
         r_aabPath = Some (outputDir env0 @ [nanoid env0 @ ''-bundle.aab'']),
         r_keystorePath = Some (outputDir env0 @ [nanoid env0 @ ''-keystore.jks'']),
         r_error = None, r_buildId = nanoid env0, r_progress = Some 100\<rparr>, d', reports)"
    and fl: "nodes d' (outputDir env0 @ [nanoid env0 @ ''-signed.apk'']) = Some (File U)"
    and u: "(\<exists>apk. gradle_assemble env0 = Inr (Some apk) \<and> U = apk)
        \<or> (isl (gradle_assemble env0)
           \<and> (\<exists>n. U = Archive (manual_apk_entries n (path_join (buildDir env0) (nanoid env0)))))"
    by blast
  from u obtain n where "U = Archive (manual_apk_entries n project_dir0)"
    by (auto simp: env0_facts env0_dirs)
  with fl have "package_at d' (outputs0 @ [''V1StGXR8_Z5jdHi6B-myT-signed.apk''])
      = manual_apk_entries n project_dir0"
    by (simp add: package_at_def env0_dirs env0_names)
  with run show ?thesis
    by (simp add: env0_facts env0_names env0_dirs manual_apk_META_INF)
qed

text \<open>
  C1, amended: when the signer fails, \<open>signAPK\<close> catches the error and returns the path of
  the unsigned package, with the disk as it was. When moreover no call of the file system fails,
  the keystore tool works, Gradle leaves its package or fails with the archiver of the manual
  package working, and the archiver of the bundle works, then the build succeeds, and the file
  at the package path of its result is that unsigned package: the package of Gradle, or the
  manual archive.
\<close>

theorem signing_failure_returns_unsigned:
  assumes "jarsigner env = Inl e"
  shows "signAPK env apkPath keystorePath config d = (Inr apkPath, d)
     \<and> (quiet (io_error env) \<and> (\<exists>ks. keytool env = Inr ks) \<and> archiver_aab env = None
          \<and> is_nanoid (nanoid env)
          \<and> ((\<exists>apk. gradle_assemble env = Inr (Some apk))
              \<or> (isl (gradle_assemble env) \<and> archiver_apk env = None)) \<longrightarrow>
        r_success (fst (buildAPK env config d))
        \<and> r_apkPath (fst (buildAPK env config d)) = Some (outputDir env @ [nanoid env @ ''-signed.apk''])
        \<and> (\<exists>U. nodes (fst (snd (buildAPK env config d))) (outputDir env @ [nanoid env @ ''-signed.apk''])
                  = Some (File U)
              \<and> ((\<exists>apk. gradle_assemble env = Inr (Some apk) \<and> U = apk)
                 \<or> (isl (gradle_assemble env)
                    \<and> (\<exists>n. U = Archive (manual_apk_entries n (path_join (buildDir env) (nanoid env))))))))"
proof -
  have 1: "signAPK env apkPath keystorePath config d = (Inr apkPath, d)"
    by (rule signAPK_fallback [OF assms])
  have 2: "r_success (fst (buildAPK env config d))
        \<and> r_apkPath (fst (buildAPK env config d)) = Some (outputDir env @ [nanoid env @ ''-signed.apk''])
        \<and> (\<exists>U. nodes (fst (snd (buildAPK env config d))) (outputDir env @ [nanoid env @ ''-signed.apk''])
                  = Some (File U)
              \<and> ((\<exists>apk. gradle_assemble env = Inr (Some apk) \<and> U = apk)
                 \<or> (isl (gradle_assemble env)
                    \<and> (\<exists>n. U = Archive (manual_apk_entries n (path_join (buildDir env) (nanoid env)))))))"
    if h: "quiet (io_error env) \<and> (\<exists>ks. keytool env = Inr ks) \<and> archiver_aab env = None
          \<and> is_nanoid (nanoid env)
          \<and> ((\<exists>apk. gradle_assemble env = Inr (Some apk))
              \<or> (isl (gradle_assemble env) \<and> archiver_apk env = None))"
  proof -
  from h obtain ks where k: "keytool env = Inr ks" by blast
  from h have q: "quiet (io_error env)" and a: "archiver_aab env = None" and n: "is_nanoid (nanoid env)"
    and pkg: "(\<exists>apk. gradle_assemble env = Inr (Some apk))
              \<or> (isl (gradle_assemble env) \<and> archiver_apk env = None)"
    by blast+
  from buildAPK_unsigned [OF assms q k a n pkg, of config d]
  show ?thesis
    by auto
  qed
  from 1 2 show ?thesis by blast
qed

theorem signing_failure_returns_unsigned_witness:
  "jarsigner env0 = Inl ''jarsigner: unable to sign''
   \<and> quiet (io_error env0) \<and> keytool env0 = Inr (Bytes ''keystore'') \<and> archiver_aab env0 = None
   \<and> is_nanoid (nanoid env0) \<and> isl (gradle_assemble env0) \<and> archiver_apk env0 = None
   \<and> signAPK env0 (project_dir0 @ [''app-release.apk'']) (project_dir0 @ [''app.jks'']) config0 disk0
        = (Inr (project_dir0 @ [''app-release.apk'']), disk0)
   \<and> r_success (fst (buildAPK env0 config0 disk0))
   \<and> r_apkPath (fst (buildAPK env0 config0 disk0)) = Some (outputs0 @ [''V1StGXR8_Z5jdHi6B-myT-signed.apk''])
   \<and> (\<exists>n. nodes (fst (snd (buildAPK env0 config0 disk0))) (outputs0 @ [''V1StGXR8_Z5jdHi6B-myT-signed.apk''])
          = Some (File (Archive (manual_apk_entries n project_dir0))))"
proof -
  note t = signing_failure_returns_unsigned [OF env0_facts(1),
      of "project_dir0 @ [''app-release.apk'']" "project_dir0 @ [''app.jks'']" config0 disk0]
  have h: "quiet (io_error env0) \<and> (\<exists>ks. keytool env0 = Inr ks) \<and> archiver_aab env0 = None
          \<and> is_nanoid (nanoid env0)
          \<and> ((\<exists>apk. gradle_assemble env0 = Inr (Some apk))
              \<or> (isl (gradle_assemble env0) \<and> archiver_apk env0 = None))"
    using env0_facts env0_nanoid by auto
  from t h have "signAPK env0 (project_dir0 @ [''app-release.apk'']) (project_dir0 @ [''app.jks'']) config0 disk0
        = (Inr (project_dir0 @ [''app-release.apk'']), disk0)
     \<and> r_success (fst (buildAPK env0 config0 disk0))
     \<and> r_apkPath (fst (buildAPK env0 config0 disk0)) = Some (outputDir env0 @ [nanoid env0 @ ''-signed.apk''])
     \<and> (\<exists>U. nodes (fst (snd (buildAPK env0 config0 disk0))) (outputDir env0 @ [nanoid env0 @ ''-signed.apk''])
                  = Some (File U)
              \<and> ((\<exists>apk. gradle_assemble env0 = Inr (Some apk) \<and> U = apk)
                 \<or> (isl (gradle_assemble env0)
                    \<and> (\<exists>n. U = Archive (manual_apk_entries n (path_join (buildDir env0) (nanoid env0)))))))"
    by blast
  then show ?thesis
    using env0_nanoid by (auto simp: env0_facts env0_dirs env0_names)
qed

section \<open>What a returned result tells\<close>








section \<open>A build whose Gradle bundle fails\<close>








lemma manual_aab_config: "manual_aab_entries n pd [''BundleConfig.pb''] = Some (Bytes bundleConfig)"
  by (simp add: manual_aab_entries_def map_add_def archive_append_def)






section \<open>The percentages that a job records\<close>

lemma recorded_progress_append:
  "recorded_progress (xs @ ys) = recorded_progress xs @ recorded_progress ys"
  by (simp add: recorded_progress_def)

lemma recorded_progress_reports:
  "recorded_progress (map progress_update reports) = map progress reports"
  by (induction reports) (simp_all add: recorded_progress_def progress_update_def no_updates_def)

lemma recorded_progress_final:
  "recorded_progress [success_update res] = [100]"
  "recorded_progress [failure_update res] = [0]"
  "recorded_progress [crash_update e] = []"
  by (simp_all add: recorded_progress_def success_update_def failure_update_def crash_update_def
        no_updates_def Let_def)

lemma record_update_log: "snd (snd (record_update now i u s)) = snd s @ [u]"
  by (simp add: record_update_def split: prod.split)

lemma fold_log:
  "snd (foldl (\<lambda>s p. snd (record_update now i (progress_update p) s)) s reports)
     = snd s @ map progress_update reports"
  by (induction reports arbitrary: s) (simp_all add: record_update_log)

lemma job_log_crash:
  assumes "getProject st pid = None \<or> (\<exists>e. read_files env (getProjectFiles st pid) = Inl e)"
  shows "recorded_progress (snd (fst (build_job env now i pid rs st d))) = []"
  using assms
  by (auto simp: build_job_def Let_def record_update_log recorded_progress_final
           split: option.splits sum.splits)

lemma job_log_build:
  assumes p: "getProject st pid = Some project"
    and f: "read_files env (getProjectFiles st pid) = Inr fl"
    and b: "buildAPK env (buildConfig project fl rs) (new_build_system env d) = (res, d2, reports)"
  shows "recorded_progress (snd (fst (build_job env now i pid rs st d)))
           = map progress reports @ [if r_success res then 100 else 0]"
proof -
  let ?s1 = "foldl (\<lambda>s p. snd (record_update now i (progress_update p) s)) (st, []) reports"
  let ?final = "if r_success res then success_update res else failure_update res"
  obtain r s2 where ru: "record_update now i ?final ?s1 = (r, s2)"
    by (cases "record_update now i ?final ?s1")
  from ru record_update_log [of now i ?final ?s1]
  have l2: "snd s2 = map progress_update reports @ [?final]"
    by (simp add: fold_log)
  have rp: "recorded_progress (snd s2) = map progress reports @ [if r_success res then 100 else 0]"
    unfolding l2 recorded_progress_append recorded_progress_reports
    by (simp add: recorded_progress_final)
  show ?thesis
  proof (cases r)
    case (Inr b')
    with p f b ru rp show ?thesis
      by (simp add: build_job_def Let_def)
  next
    case (Inl e)
    with p f b ru rp show ?thesis
      by (simp add: build_job_def Let_def record_update_log recorded_progress_append
            recorded_progress_final)
  qed
qed

lemma sorted_anchors: "sorted anchors"
  by (simp add: anchors_def)

lemma prefix_anchors:
  assumes "prefix xs anchors"
  shows "sorted xs" and "\<forall>p \<in> set xs. 0 \<le> p \<and> p \<le> 100"
proof -
  from assms obtain zs where z: "anchors = xs @ zs" by (rule prefixE)
  have "sorted (xs @ zs)" unfolding z [symmetric] by (rule sorted_anchors)
  then show "sorted xs" by (simp add: sorted_append)
  from assms have "set xs \<subseteq> set anchors" by (rule set_mono_prefix)
  then show "\<forall>p \<in> set xs. 0 \<le> p \<and> p \<le> 100" by (auto simp: anchors_def)
qed

lemma job_progress:
  "recorded_progress (snd (fst (build_job env now i pid rs st d))) = []
   \<or> (\<exists>xs. prefix xs anchors
        \<and> (recorded_progress (snd (fst (build_job env now i pid rs st d))) = anchors @ [100]
           \<or> (xs \<noteq> anchors \<and> recorded_progress (snd (fst (build_job env now i pid rs st d))) = xs @ [0])))"
proof (cases "getProject st pid = None \<or> (\<exists>e. read_files env (getProjectFiles st pid) = Inl e)")
  case True
  from job_log_crash [OF True] show ?thesis by simp
next
  case False
  then obtain project fl where p: "getProject st pid = Some project"
    and f: "read_files env (getProjectFiles st pid) = Inr fl"
    by (cases "read_files env (getProjectFiles st pid)") auto
  obtain res d2 reports where
    b: "buildAPK env (buildConfig project fl rs) (new_build_system env d) = (res, d2, reports)"
    by (cases "buildAPK env (buildConfig project fl rs) (new_build_system env d)")
  note l = job_log_build [OF p f b, of now i]
  note r = buildAPK_reports [OF b]
  show ?thesis
  proof (cases "r_success res")
    case True
    with l r(2) have "recorded_progress (snd (fst (build_job env now i pid rs st d))) = anchors @ [100]"
      by simp
    then show ?thesis by blast
  next
    case False
    with l r(1) r(3) show ?thesis by auto
  qed
qed

lemma buildAPK_no_keytool:
  assumes q: "quiet (io_error env)" and k: "keytool env = Inl e"
  shows "\<exists>res d' reports. buildAPK env config d = (res, d', reports) \<and> \<not> r_success res
           \<and> map progress reports = [5, 15, 30]"
proof -
  let ?pd = "path_join (buildDir env) (nanoid env)"
  obtain d1 where m1: "mkdir (io_error env) ?pd d = (Inr (), d1)"
    using mkdir_quiet [OF q] by blast
  from succeedsD [OF succeeds_createAndroidProject [OF q]]
  obtain u2 d2 where m2: "createAndroidProject env ?pd config d1 = (Inr u2, d2)" by blast
  have m3: "generateKeystore env ?pd config d2 = (Inl e, d2)"
    using k by (simp add: generateKeystore_def Let_def and_then_def run_tool_def throw_def)
  have "\<exists>reports. buildAPK_steps env config (d, []) = (Inl e, (d2, reports))
          \<and> map progress reports = [5, 15, 30]"
    by (simp add: buildAPK_steps_def Let_def and_then_def onProgress_def stage_def m1 m2 m3)
  then show ?thesis
    by (auto simp: buildAPK_def)
qed

lemma env_no_keytool_facts:
  "quiet (io_error env_no_keytool)" "keytool env_no_keytool = Inl ''keytool: command not found''"
  by (simp_all add: env_no_keytool_def env0_def quiet_def)

lemma store0_prepared:
  "getProject store0 (Some 1) = Some project0" "read_files env (getProjectFiles store0 (Some 1)) = Inr []"
  by (simp_all add: getProject_def getProjectFiles_def store0_def new_storage_def)

text \<open>
  C6, as stated, fails: in the run \<open>env_no_keytool\<close> the job records the percentages 5, 15
  and 30 for its first three reports and then 0 with the status \<open>failed\<close>.
\<close>

theorem progress_monotone_counterexample:
  "recorded_progress (snd (fst (build_job env_no_keytool 250 1 (Some 1) signing0 store0 disk0)))
     = [5, 15, 30, 0]
   \<and> \<not> sorted [5, 15, 30, 0 :: int]"
proof -
  from buildAPK_no_keytool [OF env_no_keytool_facts,
      of "buildConfig project0 [] signing0" "new_build_system env_no_keytool disk0"]
  obtain res d' reports where
    b: "buildAPK env_no_keytool (buildConfig project0 [] signing0) (new_build_system env_no_keytool disk0)
          = (res, d', reports)"
    and f: "\<not> r_success res" and r: "map progress reports = [5, 15, 30]"
    by auto
  from job_log_build [OF store0_prepared b, of 250 1] f r show ?thesis by simp
qed

text \<open>
  C6, amended: every percentage that a job records is between 0 and 100, and the percentages
  before the last one never decrease: they are the first of 5, 15, 30, 45, 60, 75, 85, 95, 100,
  one per progress report. The last one comes with the terminal status: it is 100, after all
  nine reports, when the build succeeded, and then the whole sequence never decreases; it is 0,
  after fewer reports, when the build failed. A job without project records no percentage.
\<close>

theorem progress_range_and_order:
  "(\<forall>p \<in> set (recorded_progress (snd (fst (build_job env now i pid rs st d)))). 0 \<le> p \<and> p \<le> 100)
   \<and> sorted (butlast (recorded_progress (snd (fst (build_job env now i pid rs st d)))))
   \<and> prefix (butlast (recorded_progress (snd (fst (build_job env now i pid rs st d))))) anchors
   \<and> (recorded_progress (snd (fst (build_job env now i pid rs st d))) \<noteq> [] \<longrightarrow>
        (last (recorded_progress (snd (fst (build_job env now i pid rs st d)))) = 100
          \<and> butlast (recorded_progress (snd (fst (build_job env now i pid rs st d)))) = anchors
          \<and> sorted (recorded_progress (snd (fst (build_job env now i pid rs st d)))))
        \<or> (last (recorded_progress (snd (fst (build_job env now i pid rs st d)))) = 0
          \<and> butlast (recorded_progress (snd (fst (build_job env now i pid rs st d)))) \<noteq> anchors))"
proof -
  let ?ps = "recorded_progress (snd (fst (build_job env now i pid rs st d)))"
  from job_progress [of env now i pid rs st d]
  consider "?ps = []" | "?ps = anchors @ [100]"
    | xs where "prefix xs anchors" "xs \<noteq> anchors" "?ps = xs @ [0]"
    by blast
  then show ?thesis
  proof cases
    case 1
    then show ?thesis by simp
  next
    case 2
    then show ?thesis by (simp add: anchors_def)
  next
    case 3
    from prefix_anchors [OF 3(1)] 3 show ?thesis by (auto simp: butlast_append)
  qed
qed

theorem progress_range_and_order_witness:
  "recorded_progress (snd (fst (build_job env_no_keytool 250 1 (Some 1) signing0 store0 disk0))) \<noteq> []
   \<and> last (recorded_progress (snd (fst (build_job env_no_keytool 250 1 (Some 1) signing0 store0 disk0)))) = 0
   \<and> butlast (recorded_progress (snd (fst (build_job env_no_keytool 250 1 (Some 1) signing0 store0 disk0))))
       \<noteq> anchors
   \<and> sorted (butlast (recorded_progress (snd (fst (build_job env_no_keytool 250 1 (Some 1) signing0 store0 disk0)))))"
proof -
  from buildAPK_no_keytool [OF env_no_keytool_facts,
      of "buildConfig project0 [] signing0" "new_build_system env_no_keytool disk0"]
  obtain res d' reports where
    b: "buildAPK env_no_keytool (buildConfig project0 [] signing0) (new_build_system env_no_keytool disk0)
          = (res, d', reports)"
    and f: "\<not> r_success res" and r: "map progress reports = [5, 15, 30]"
    by auto
  from job_log_build [OF store0_prepared b, of 250 1] f r
  have ps: "recorded_progress (snd (fst (build_job env_no_keytool 250 1 (Some 1) signing0 store0 disk0)))
     = [5, 15, 30, 0]"
    by simp
  then have ne: "recorded_progress (snd (fst (build_job env_no_keytool 250 1 (Some 1) signing0 store0 disk0))) \<noteq> []"
    and l: "last (recorded_progress (snd (fst (build_job env_no_keytool 250 1 (Some 1) signing0 store0 disk0)))) \<noteq> 100"
    by simp_all
  note t = progress_range_and_order [of env_no_keytool 250 1 "Some 1" signing0 store0 disk0]
  from t ne l show ?thesis by blast
qed

section \<open>Names with an extension\<close>

lemma split_on_not_Nil: "split_on d s \<noteq> []"
  by (induction s) (auto split: list.splits)

lemma split_on_append:
  "d \<notin> set t \<Longrightarrow> split_on d (s @ t) = butlast (split_on d s) @ [last (split_on d s) @ t]"
proof (induction s)
  case Nil
  then show ?case by (simp add: split_on_without)
next
  case (Cons c s)
  then show ?case
    using split_on_not_Nil [of d s]
    by (cases "split_on d s") (auto split: list.splits)
qed

lemma resolve_snoc:
  "x \<noteq> [] \<Longrightarrow> x \<noteq> ''.'' \<Longrightarrow> x \<noteq> ''..'' \<Longrightarrow> resolve p (ss @ [x]) = resolve p ss @ [x]"
  by (induction ss arbitrary: p) auto

lemma path_join_extension:
  assumes "CHR ''/'' \<notin> set t" and "2 < length t"
  shows "path_join p (s @ t)
         = resolve p (butlast (split_on (CHR ''/'') s)) @ [last (split_on (CHR ''/'') s) @ t]"
proof -
  let ?x = "last (split_on (CHR ''/'') s) @ t"
  from assms(2) have "?x \<noteq> []" and "?x \<noteq> ''.''" and "?x \<noteq> ''..''"
    by (auto simp: longer_neq)
  then show ?thesis
    by (simp add: path_join_def split_on_append [OF assms(1)] resolve_snoc)
qed

lemma extensions_differ:
  assumes "CHR ''/'' \<notin> set t" and "2 < length t" and "CHR ''/'' \<notin> set u" and "2 < length u"
    and "t \<noteq> u"
  shows "path_join p (s @ t) \<noteq> path_join p (s @ u)"
  using assms by (simp add: path_join_extension)

lemma file_name_append: "file_name config ext = file_name config [] @ ext"
  by (simp add: file_name_def)

lemma file_names_differ:
  assumes "CHR ''/'' \<notin> set t" and "2 < length t" and "CHR ''/'' \<notin> set u" and "2 < length u"
    and "t \<noteq> u"
  shows "path_join p (file_name config t) \<noteq> path_join p (file_name config u)"
  using extensions_differ [OF assms] file_name_append [of config t] file_name_append [of config u]
  by simp

section \<open>A build whose alignment fails\<close>

lemma keystore_exists_later:
  assumes "keystore_exists env config d" and "\<And>p. nodes d p \<noteq> None \<Longrightarrow> nodes d' p \<noteq> None"
  shows "keystore_exists env config d'"
  using assms by (auto simp: keystore_exists_def existsSync_def split: jsval.splits)

lemma project_steps_pass: "\<forall>name. step_error env name = None \<Longrightarrow> project_step env name = ok ()"
  by (simp add: project_step_def)

lemma signAPK_working_unaligned:
  assumes q: "quiet (io_error env)" and j: "jarsigner env = Inr signed" and z: "zipalign env = Inl e"
    and k: "keystore_exists env config d"
  shows "\<exists>d'. signAPK_working env p config d
               = (Inr (path_join (outputs_dir env) (file_name config ''-signed.apk'')), d')
             \<and> nodes d' (path_join (outputs_dir env) (file_name config ''-signed.apk''))
               = Some (File signed)"
proof -
  let ?s = "path_join (outputs_dir env) (file_name config ''-signed.apk'')"
  define d3 where "d3 = d\<lparr>nodes := (with_directories (dirname p) (nodes d))(p \<mapsto> File signed)\<rparr>"
  have c3: "copyFile (io_error env) p ?s d3
            = (Inr (), \<lparr>nodes = (nodes d3)(?s \<mapsto> File signed), tick = tick d3 + 1\<rparr>)"
    using q by (simp add: copyFile_def fs_call_def quiet_def d3_def)
  have "signAPK_working env p config d
        = (Inr ?s, \<lparr>nodes = (nodes d3)(?s \<mapsto> File signed), tick = tick d3 + 1\<rparr>)"
    using k c3
    by (simp add: signAPK_working_def j z run_tool_def and_then_def try_catch_def ok_def throw_def
        tool_output_def Let_def d3_def [symmetric])
  then show ?thesis by simp
qed

lemma buildAPK_working_unaligned:
  assumes q: "quiet (io_error env)" and s: "\<forall>name. step_error env name = None"
    and a: "archiver_apk env = None" and b: "archiver_aab env = None"
    and j: "jarsigner env = Inr signed" and z: "zipalign env = Inl e"
    and k: "keystore_exists env config d"
  shows "\<exists>r d' evs. buildAPK_working env config d = (r, d', evs) \<and> r_success r \<and> r_error r = None
           \<and> r_apkPath r = Some (path_join (outputs_dir env) (file_name config ''-signed.apk''))
           \<and> nodes d' (path_join (outputs_dir env) (file_name config ''-signed.apk''))
             = Some (File signed)"
proof -
  let ?p = "path_join (builds_dir env) (nanoid env)"
  let ?a = "path_join (outputs_dir env) (file_name config ''.apk'')"
  let ?s = "path_join (outputs_dir env) (file_name config ''-signed.apk'')"
  let ?b = "path_join (outputs_dir env) (file_name config ''.aab'')"
  obtain d1 where m: "mkdir (io_error env) ?p d = (Inr (), d1)"
    and d1: "d1 = \<lparr>nodes = with_directories ?p (nodes d), tick = tick d + 1\<rparr>"
    using q by (simp add: mkdir_def fs_call_def quiet_def)
  define d2 where "d2 = d1\<lparr>nodes := (nodes d1)(?a \<mapsto> File (package_archive env))\<rparr>"
  have pk: "packageAPK env ?p config d1 = (Inr ?a, d2)"
    by (simp add: packageAPK_def Let_def and_then_def ok_def project_steps_pass [OF s] a d2_def)
  have k2: "keystore_exists env config d2"
    by (rule keystore_exists_later [OF k]) (auto simp: d1 d2_def with_directories_def)
  from signAPK_working_unaligned [OF q j z k2, of ?a]
  obtain d4 where sg: "signAPK_working env ?a config d2 = (Inr ?s, d4)"
    and f: "nodes d4 ?s = Some (File signed)" by auto
  define d5 where "d5 = d4\<lparr>nodes := (nodes d4)(?b \<mapsto> File (bundle_archive env))\<rparr>"
  have ab: "createAAB_working env ?p config d4 = (Inr ?b, d5)"
    by (simp add: createAAB_working_def Let_def b d5_def)
  have n: "?s \<noteq> ?b"
    by (rule file_names_differ) simp_all
  have f5: "nodes d5 ?s = Some (File signed)"
    using f n by (simp add: d5_def)
  have "\<exists>evs. buildAPK_working_steps env config (d, [])
        = (Inr \<lparr>r_success = True, r_apkPath = Some ?s, r_aabPath = Some ?b,
                r_keystorePath = None, r_error = None, r_buildId = nanoid env,
                r_progress = None\<rparr>, (d5, evs))"
    by (simp add: buildAPK_working_steps_def Let_def and_then_def ok_def emit_def onProgress_def
        stage_def project_steps_pass [OF s] m pk sg ab)
  then show ?thesis using f5 by (auto simp: buildAPK_working_def)
qed

text \<open>
  C4. When \<open>zipalign\<close> is not installed or fails, while no call of the file system fails, the
  steps that write the project and \<open>jarsigner\<close> work and the keystore of the configuration
  exists, \<open>signAPK\<close> returns the path of the file named \<open>-signed.apk\<close>, to which its
  \<open>catch\<close> around \<open>zipalign\<close> has copied the package that \<open>jarsigner\<close> signed in place; and
  when the archiver works, the build returns a succeeded result, and the file at the package
  path of the result holds that signed archive, unaligned.
\<close>

theorem alignment_failure_keeps_signed_package:
  assumes "quiet (io_error env)" and "\<forall>name. step_error env name = None"
    and "jarsigner env = Inr signed" and "zipalign env = Inl e"
    and "keystore_exists env config d"
  shows "fst (signAPK_working env apkPath config d)
           = Inr (path_join (outputs_dir env) (file_name config ''-signed.apk''))
       \<and> nodes (snd (signAPK_working env apkPath config d))
             (path_join (outputs_dir env) (file_name config ''-signed.apk''))
           = Some (File signed)
       \<and> (archiver_apk env = None \<and> archiver_aab env = None \<longrightarrow>
          (case buildAPK_working env config d of (r, d', evs) \<Rightarrow>
             r_success r \<and> r_error r = None
             \<and> r_apkPath r = Some (path_join (outputs_dir env) (file_name config ''-signed.apk''))
             \<and> nodes d' (path_join (outputs_dir env) (file_name config ''-signed.apk''))
               = Some (File signed)))"
proof (intro conjI impI)
  from signAPK_working_unaligned [OF assms(1) assms(3) assms(4) assms(5), of apkPath]
  show "fst (signAPK_working env apkPath config d)
           = Inr (path_join (outputs_dir env) (file_name config ''-signed.apk''))"
    and "nodes (snd (signAPK_working env apkPath config d))
             (path_join (outputs_dir env) (file_name config ''-signed.apk''))
           = Some (File signed)"
    by auto
next
  assume "archiver_apk env = None \<and> archiver_aab env = None"
  with buildAPK_working_unaligned [OF assms(1,2) _ _ assms(3,4,5)]
  show "case buildAPK_working env config d of (r, d', evs) \<Rightarrow>
          r_success r \<and> r_error r = None
          \<and> r_apkPath r = Some (path_join (outputs_dir env) (file_name config ''-signed.apk''))
          \<and> nodes d' (path_join (outputs_dir env) (file_name config ''-signed.apk''))
            = Some (File signed)"
    by auto
qed

lemma env_unaligned_facts:
  "quiet (io_error env_unaligned)" "\<forall>name. step_error env_unaligned name = None"
  "jarsigner env_unaligned = Inr (Bytes ''signed package'')"
  "zipalign env_unaligned = Inl ''zipalign: command not found''"
  "archiver_apk env_unaligned = None" "archiver_aab env_unaligned = None"
  by (simp_all add: env_unaligned_def quiet_def)

lemma disk_keystore_exists: "keystore_exists env_unaligned config_signed disk_keystore"
  by (simp add: keystore_exists_def config_signed_def env_unaligned_def disk_keystore_def
      fs_path_def path_join_def existsSync_def)

lemma env_unaligned_names:
  "path_join (outputs_dir env_unaligned) (file_name config_signed ''.apk'')
   = [''srv'', ''app'', ''outputs'', ''Demo-1.0.apk'']"
  "path_join (outputs_dir env_unaligned) (file_name config_signed ''-signed.apk'')
   = [''srv'', ''app'', ''outputs'', ''Demo-1.0-signed.apk'']"
  by (simp_all add: outputs_dir_def file_name_def path_join_def env_unaligned_def config_signed_def)

theorem alignment_failure_keeps_signed_package_witness:
  "fst (signAPK_working env_unaligned [''srv'', ''app'', ''outputs'', ''Demo-1.0.apk'']
          config_signed disk_keystore)
     = Inr [''srv'', ''app'', ''outputs'', ''Demo-1.0-signed.apk'']
   \<and> r_success (fst (buildAPK_working env_unaligned config_signed disk_keystore))
   \<and> r_apkPath (fst (buildAPK_working env_unaligned config_signed disk_keystore))
     = Some [''srv'', ''app'', ''outputs'', ''Demo-1.0-signed.apk'']
   \<and> nodes (fst (snd (buildAPK_working env_unaligned config_signed disk_keystore)))
       [''srv'', ''app'', ''outputs'', ''Demo-1.0-signed.apk''] = Some (File (Bytes ''signed package''))"
  using alignment_failure_keeps_signed_package [where env = env_unaligned
      and config = config_signed and d = disk_keystore and signed = "Bytes ''signed package''"
      and e = "''zipalign: command not found''"
      and apkPath = "[''srv'', ''app'', ''outputs'', ''Demo-1.0.apk'']",
      OF env_unaligned_facts(1,2,3,4) disk_keystore_exists]
    env_unaligned_facts(5,6)
  by (auto simp: env_unaligned_names split: prod.splits)

section \<open>The files of the assets\<close>




























end
